theory Spec2Isabelle
  imports Main "HOL-Library.Word"
begin

unbundle bit_operations_syntax

section \<open>The digest behind \<open>hash_password\<close>\<close>

text \<open>
  \<^verbatim>\<open>hash_password(password) = hashlib.sha256(password.encode()).hexdigest()\<close>
  (frontend.py, lines 5-6). The digest is the SHA-256 of FIPS 180-4 on bytes, here on
  32-bit words; \<open>hexdigest\<close> prints the eight state words as 64 lower-case hex digits.
  A Python \<open>str\<close> is represented by its UTF-8 bytes (a \<open>string\<close>), so that
  \<open>encode\<close> only changes the type of each byte and equality of two \<open>str\<close> values is
  equality of their byte sequences.
\<close>

type_synonym u8 = "8 word"
type_synonym u32 = "32 word"

definition rotr :: "nat \<Rightarrow> u32 \<Rightarrow> u32" where
  "rotr n x = drop_bit n x OR push_bit (32 - n) x"

definition Ch :: "u32 \<Rightarrow> u32 \<Rightarrow> u32 \<Rightarrow> u32" where
  "Ch x y z = (x AND y) XOR (NOT x AND z)"

definition Maj :: "u32 \<Rightarrow> u32 \<Rightarrow> u32 \<Rightarrow> u32" where
  "Maj x y z = (x AND y) XOR (x AND z) XOR (y AND z)"

definition Sigma0 :: "u32 \<Rightarrow> u32" where
  "Sigma0 x = rotr 2 x XOR rotr 13 x XOR rotr 22 x"

definition Sigma1 :: "u32 \<Rightarrow> u32" where
  "Sigma1 x = rotr 6 x XOR rotr 11 x XOR rotr 25 x"

definition sigma0 :: "u32 \<Rightarrow> u32" where
  "sigma0 x = rotr 7 x XOR rotr 18 x XOR drop_bit 3 x"

definition sigma1 :: "u32 \<Rightarrow> u32" where
  "sigma1 x = rotr 17 x XOR rotr 19 x XOR drop_bit 10 x"

text \<open>The 64 round constants, in eight rows of eight.\<close>

definition K256 :: "u32 list" where
  "K256 = concat
   [[0x428a2f98, 0x71374491, 0xb5c0fbcf, 0xe9b5dba5, 0x3956c25b, 0x59f111f1, 0x923f82a4, 0xab1c5ed5],
    [0xd807aa98, 0x12835b01, 0x243185be, 0x550c7dc3, 0x72be5d74, 0x80deb1fe, 0x9bdc06a7, 0xc19bf174],
    [0xe49b69c1, 0xefbe4786, 0x0fc19dc6, 0x240ca1cc, 0x2de92c6f, 0x4a7484aa, 0x5cb0a9dc, 0x76f988da],
    [0x983e5152, 0xa831c66d, 0xb00327c8, 0xbf597fc7, 0xc6e00bf3, 0xd5a79147, 0x06ca6351, 0x14292967],
    [0x27b70a85, 0x2e1b2138, 0x4d2c6dfc, 0x53380d13, 0x650a7354, 0x766a0abb, 0x81c2c92e, 0x92722c85],
    [0xa2bfe8a1, 0xa81a664b, 0xc24b8b70, 0xc76c51a3, 0xd192e819, 0xd6990624, 0xf40e3585, 0x106aa070],
    [0x19a4c116, 0x1e376c08, 0x2748774c, 0x34b0bcb5, 0x391c0cb3, 0x4ed8aa4a, 0x5b9cca4f, 0x682e6ff3],
    [0x748f82ee, 0x78a5636f, 0x84c87814, 0x8cc70208, 0x90befffa, 0xa4506ceb, 0xbef9a3f7, 0xc67178f2]]"

definition H256 :: "u32 list" where
  "H256 = [0x6a09e667, 0xbb67ae85, 0x3c6ef372, 0xa54ff53a,
           0x510e527f, 0x9b05688c, 0x1f83d9ab, 0x5be0cd19]"

text \<open>Padding: the byte 0x80, zero bytes up to 56 modulo 64, the bit length on 8 bytes.\<close>

definition length_bytes :: "nat \<Rightarrow> u8 list" where
  "length_bytes n =
     map (\<lambda>i. ucast (drop_bit (8 * (7 - i)) (of_nat (8 * n) :: 64 word))) [0..<8]"

definition pad :: "u8 list \<Rightarrow> u8 list" where
  "pad bs = bs @ [0x80] @ replicate ((119 - length bs mod 64) mod 64) 0
               @ length_bytes (length bs)"

fun be_words :: "u8 list \<Rightarrow> u32 list" where
  "be_words (a # b # c # d # bs) =
     (push_bit 24 (ucast a) OR push_bit 16 (ucast b) OR push_bit 8 (ucast c) OR ucast d)
       # be_words bs"
| "be_words _ = []"

fun chunks :: "nat \<Rightarrow> 'a list \<Rightarrow> 'a list list" where
  "chunks 0 xs = []"
| "chunks (Suc n) xs = (if xs = [] then [] else take 16 xs # chunks n (drop 16 xs))"

text \<open>The message schedule: the 16 words of the block, then 48 derived words.\<close>

fun schedule :: "nat \<Rightarrow> u32 list \<Rightarrow> u32 list" where
  "schedule 0 ws = ws"
| "schedule (Suc k) ws =
     (let t = length ws
      in schedule k (ws @ [sigma1 (ws ! (t - 2)) + ws ! (t - 7)
                           + sigma0 (ws ! (t - 15)) + ws ! (t - 16)]))"

type_synonym regs = "u32 \<times> u32 \<times> u32 \<times> u32 \<times> u32 \<times> u32 \<times> u32 \<times> u32"

fun sha_round :: "regs \<Rightarrow> u32 \<times> u32 \<Rightarrow> regs" where
  "sha_round (a, b, c, d, e, f, g, h) (k, w) =
     (let t1 = h + Sigma1 e + Ch e f g + k + w;
          t2 = Sigma0 a + Maj a b c
      in (t1 + t2, a, b, c, d + t1, e, f, g))"

fun compress :: "u32 list \<Rightarrow> u32 list \<Rightarrow> u32 list" where
  "compress [a, b, c, d, e, f, g, h] block =
     (case foldl sha_round (a, b, c, d, e, f, g, h) (zip K256 (schedule 48 block)) of
        (a', b', c', d', e', f', g', h') \<Rightarrow>
          [a + a', b + b', c + c', d + d', e + e', f + f', g + g', h + h'])"
| "compress hs block = hs"

definition sha256 :: "u8 list \<Rightarrow> u32 list" where
  "sha256 bs = (let ws = be_words (pad bs)
                in foldl compress H256 (chunks (length ws) ws))"

definition hex_digit :: "nat \<Rightarrow> char" where
  "hex_digit n = ''0123456789abcdef'' ! n"

definition hex_word :: "u32 \<Rightarrow> string" where
  "hex_word w = map (\<lambda>i. hex_digit (unat (drop_bit (4 * (7 - i)) w AND 15))) [0..<8]"

definition hexdigest :: "u32 list \<Rightarrow> string" where
  "hexdigest hs = concat (map hex_word hs)"

definition encode :: "string \<Rightarrow> u8 list" where
  "encode s = map of_char s"

definition hash_password :: "string \<Rightarrow> string" where
  "hash_password password = hexdigest (sha256 (encode password))"

section \<open>The credential gate\<close>

definition USERNAME :: string where
  "USERNAME = ''admin''"

definition PASSWORD :: string where
  "PASSWORD = ''password''"

definition hashed_password :: string where
  "hashed_password = hash_password PASSWORD"

text \<open>
  The condition of line 25:
  \<^verbatim>\<open>input_username == USERNAME and hashlib.sha256(input_password.encode()).hexdigest() == hashed_password\<close>.
\<close>

definition login_condition :: "string \<Rightarrow> string \<Rightarrow> bool" where
  "login_condition input_username input_password \<longleftrightarrow>
     input_username = USERNAME \<and>
     hexdigest (sha256 (encode input_password)) = hashed_password"

section \<open>Data of the application\<close>

text \<open>
  Exceptions are values. \<open>KeyError\<close> is a dictionary subscript on a missing key,
  \<open>StopIteration\<close> is \<open>next\<close> on an exhausted cursor, and \<open>Raised\<close> is an
  exception raised inside a library call (json, pymongo, superduperdb, PIL), named by
  the library. The script has no \<open>try\<close>: an exception ends the run.
\<close>

datatype error = KeyError string | StopIteration | Raised string

text \<open>
  Field values of a document: text, an image (a \<open>PIL.Image\<close>, here its bytes), and the wrapper that the encoder
  \<open>pil_image\<close> puts around an image. A document is a dictionary, kept as an
  association list; \<open>Document.unpack()\<close> yields the dictionary of decoded values,
  which is how documents are represented here.
\<close>

datatype val = Str string | PIL_Image string | Encodable string val

type_synonym document = "(string \<times> val) list"

definition unpack :: "document \<Rightarrow> document" where
  "unpack r = r"

definition pil_image :: "val \<Rightarrow> val" where
  "pil_image img = Encodable ''pil_image'' img"

datatype json =
    JNull | JBool bool | JNum int | JStr string
  | JArr "json list" | JObj "(string \<times> json) list"

text \<open>
  Connections: \<open>superduper(uri, artifact_store=..., downloads_folder=...)\<close> and
  \<open>pymongo.MongoClient(uri)\<close>. Collection handles: superduperdb's
  \<open>Collection(name)\<close> and pymongo's \<open>client[database][name]\<close>.
\<close>

datatype connection = Superduper string string string | MongoClient string

datatype coll = Collection string | MongoCollection connection string string

text \<open>
  What the script asks of the libraries. A query is built by a method of the
  collection handle and records the handle it was built from:
  \<open>collection.like(Document(d), vector_index=index, n=n).find(f)\<close> and
  \<open>collection.aggregate(pipeline)\<close>. A request is \<open>db.execute(query)\<close>, or the
  pymongo cursor \<open>collection.find(filter, projection).limit(n)\<close> read to its end.
\<close>

datatype query =
    Like_find coll document string nat json
  | Aggregate coll json

datatype request =
    Execute connection query
  | Find_limit coll json json nat

fun query_coll :: "query \<Rightarrow> coll" where
  "query_coll (Like_find c d index n f) = c"
| "query_coll (Aggregate c pipeline) = c"

fun query_n :: "query \<Rightarrow> nat option" where
  "query_n (Like_find c d index n f) = Some n"
| "query_n (Aggregate c pipeline) = None"

text \<open>What the script puts on the page.\<close>

datatype element =
    Sidebar_success string
  | Sidebar_error string
  | Title string
  | Markdown string
  | St_image val "val option"
  | St_text val

text \<open>
  The state that outlives a run of the script: \<open>st.session_state\<close>, the memo of
  \<open>st.cache_resource\<close> for \<open>_init\<close>, the connections opened and the requests
  issued so far, and the page.
\<close>

record world =
  session_state :: "string \<rightharpoonup> bool option"
  cache_resource :: "connection option"
  opened :: "connection list"
  issued :: "request list"
  rendered :: "element list"

text \<open>
  The libraries and the process environment are parameters. An answer may depend on
  what was asked before (the history), so that sampling and a changing collection are
  covered. Cursors are read at once: a request answers with all its documents or with
  the exception.
\<close>

record env =
  getenv :: "string \<Rightarrow> string option"
  connect :: "connection list \<Rightarrow> connection \<Rightarrow> error option"
  respond :: "request list \<Rightarrow> request \<Rightarrow> error + document list"
  json_loads :: "string \<Rightarrow> error + json"
  json_dumps :: "document list \<Rightarrow> error + string"
  Image_open :: "string \<Rightarrow> error + val"

text \<open>The widgets' values in one run of the script.\<close>

record inputs =
  input_username :: string
  input_password :: string
  login_button :: bool
  query :: string
  query_button :: bool
  search_text :: string
  search_button :: bool
  uploaded_file :: "string option"

section \<open>Statements that may raise\<close>

type_synonym 'a action = "world \<Rightarrow> (error + 'a) \<times> world"

definition ok :: "'a \<Rightarrow> 'a action" where
  "ok x w = (Inr x, w)"

definition raise :: "error \<Rightarrow> 'a action" where
  "raise e w = (Inl e, w)"

definition and_then :: "'a action \<Rightarrow> ('a \<Rightarrow> 'b action) \<Rightarrow> 'b action" where
  "and_then m f w = (case m w of (Inl e, w') \<Rightarrow> (Inl e, w') | (Inr x, w') \<Rightarrow> f x w')"

definition lift :: "error + 'a \<Rightarrow> 'a action" where
  "lift r w = (r, w)"

definition st :: "element \<Rightarrow> unit action" where
  "st e w = (Inr (), w\<lparr>rendered := rendered w @ [e]\<rparr>)"

definition getitem :: "document \<Rightarrow> string \<Rightarrow> val action" where
  "getitem r k = (case map_of r k of None \<Rightarrow> raise (KeyError k) | Some v \<Rightarrow> ok v)"

definition open_connection :: "env \<Rightarrow> connection \<Rightarrow> connection action" where
  "open_connection env c w =
     (case connect env (opened w) c of
        Some e \<Rightarrow> (Inl e, w)
      | None \<Rightarrow> (Inr c, w\<lparr>opened := opened w @ [c]\<rparr>))"

definition request :: "env \<Rightarrow> request \<Rightarrow> document list action" where
  "request env q w = (respond env (issued w) q, w\<lparr>issued := issued w @ [q]\<rparr>)"

section \<open>The script\<close>

text \<open>Lines 9-10: the key is set to \<open>None\<close> only when it is absent.\<close>

definition init_session_state :: "world \<Rightarrow> world" where
  "init_session_state w =
     (case session_state w ''authentication_status'' of
        None \<Rightarrow> w\<lparr>session_state := (session_state w)(''authentication_status'' \<mapsto> None)\<rparr>
      | Some v \<Rightarrow> w)"

text \<open>Lines 24-30, the body of \<open>if st.sidebar.button('Login')\<close>.\<close>

definition login :: "string \<Rightarrow> string \<Rightarrow> world \<Rightarrow> world" where
  "login username password w =
     (if login_condition username password
      then w\<lparr>session_state := (session_state w)(''authentication_status'' \<mapsto> Some True),
             rendered := rendered w @ [Sidebar_success (''Logged in as '' @ username)]\<rparr>
      else w\<lparr>session_state := (session_state w)(''authentication_status'' \<mapsto> Some False),
             rendered := rendered w @ [Sidebar_error ''Incorrect Username/Password'']\<rparr>)"

definition mongodb_uri :: "env \<Rightarrow> string" where
  "mongodb_uri env =
     (case getenv env ''MONGODB_URI'' of
        Some v \<Rightarrow> v
      | None \<Rightarrow> ''mongodb://localhost:27017/ecommerce'')"

text \<open>
  Lines 52-56: \<open>_init\<close> under \<open>st.cache_resource\<close>. The body runs when the memo is
  empty and its result is kept; later calls return the kept handle.
\<close>

definition superduper_connection :: "env \<Rightarrow> connection" where
  "superduper_connection env =
     Superduper (mongodb_uri env) ''filesystem://./data/artifacts/'' ''./data/downloads''"

definition init_db :: "env \<Rightarrow> connection action" where
  "init_db env w =
     (case cache_resource w of
        Some db \<Rightarrow> (Inr db, w)
      | None \<Rightarrow>
          and_then (open_connection env (superduper_connection env))
            (\<lambda>db w'. (Inr db, w'\<lparr>cache_resource := Some db\<rparr>)) w)"

text \<open>
  Lines 65-84. The functions read the globals \<open>db\<close> and \<open>collection\<close> when they are
  called; here the caller passes their current values. \<open>_search\<close> has the default
  \<open>n=3\<close>, which \<open>text_2_image_search\<close> and \<open>image_search\<close> take.
\<close>

definition search :: "env \<Rightarrow> connection \<Rightarrow> coll \<Rightarrow> string \<Rightarrow> val \<Rightarrow> string \<Rightarrow> nat
    \<Rightarrow> document list action" where
  "search env db collection k v index n =
     request env (Execute db (Like_find collection [(k, v)] index n (JObj [])))"

definition text_2_image_search :: "env \<Rightarrow> connection \<Rightarrow> coll \<Rightarrow> val \<Rightarrow> document list action" where
  "text_2_image_search env db collection text = search env db collection ''search'' text ''my-index'' 3"

definition text_2_text_search :: "env \<Rightarrow> connection \<Rightarrow> coll \<Rightarrow> val \<Rightarrow> document list action" where
  "text_2_text_search env db collection text = search env db collection ''title'' text ''text-index'' 10"

definition image_search :: "env \<Rightarrow> connection \<Rightarrow> coll \<Rightarrow> val \<Rightarrow> document list action" where
  "image_search env db collection img = search env db collection ''img'' (pil_image img) ''my-index'' 3"

definition sample_pipeline :: json where
  "sample_pipeline = JArr [JObj [(''$sample'', JObj [(''size'', JNum 1)])]]"

definition random_product :: "env \<Rightarrow> connection \<Rightarrow> coll \<Rightarrow> document action" where
  "random_product env db collection =
     and_then (request env (Execute db (Aggregate collection sample_pipeline)))
       (\<lambda>res. case res of [] \<Rightarrow> raise StopIteration | r # rs \<Rightarrow> ok r)"

text \<open>
  Lines 89-102, the tab "Data". The block assigns the global \<open>collection\<close>; the
  result is the value of \<open>collection\<close> after the block.
\<close>

definition tab0 :: "env \<Rightarrow> inputs \<Rightarrow> coll \<Rightarrow> coll action" where
  "tab0 env inp collection =
     (if query_button inp then
        and_then (open_connection env (MongoClient (mongodb_uri env))) (\<lambda>client.
        let collection = MongoCollection client ''ecommerce'' ''multimodal'' in
        and_then (lift (json_loads env (query inp))) (\<lambda>flt.
        and_then (request env (Find_limit collection flt (JObj [(''_id'', JNum 0)]) 5)) (\<lambda>res.
        and_then (lift (json_dumps env res)) (\<lambda>s.
        and_then (st (St_text (Str s))) (\<lambda>u. ok collection)))))
      else ok collection)"

text \<open>
  Lines 109-111 and 118-120:
  \<^verbatim>\<open>for r in results: r = r.unpack(); st.image(r['img'], caption=r['title'])\<close>.
\<close>

primrec show_results :: "document list \<Rightarrow> unit action" where
  "show_results [] = ok ()"
| "show_results (r # rs) =
     (let r = unpack r in
      and_then (getitem r ''img'') (\<lambda>img.
      and_then (getitem r ''title'') (\<lambda>title.
      and_then (st (St_image img (Some title))) (\<lambda>u. show_results rs))))"

definition tab1 :: "env \<Rightarrow> inputs \<Rightarrow> connection \<Rightarrow> coll \<Rightarrow> unit action" where
  "tab1 env inp db collection =
     (if search_button inp then
        and_then (text_2_image_search env db collection (Str (search_text inp))) show_results
      else ok ())"

definition tab2 :: "env \<Rightarrow> inputs \<Rightarrow> connection \<Rightarrow> coll \<Rightarrow> unit action" where
  "tab2 env inp db collection =
     (case uploaded_file inp of
        Some file \<Rightarrow>
          and_then (lift (Image_open env file)) (\<lambda>image.
          and_then (image_search env db collection image) show_results)
      | None \<Rightarrow> ok ())"

text \<open>
  Lines 137-139: \<^verbatim>\<open>for r in image_results: r = r.unpack(); st.image(r['img'])\<close>.
  The loop assigns the variable \<open>r\<close> of the enclosing block; the result is the value
  of \<open>r\<close> after the loop.
\<close>

primrec show_images :: "document list \<Rightarrow> document \<Rightarrow> document action" where
  "show_images [] r = ok r"
| "show_images (r' # rs) r =
     (let r = unpack r' in
      and_then (getitem r ''img'') (\<lambda>img.
      and_then (st (St_image img None)) (\<lambda>u. show_images rs r)))"

text \<open>Lines 144-146: \<^verbatim>\<open>for r in text_results: r = r.unpack(); st.text(r['title'])\<close>.\<close>

primrec show_titles :: "document list \<Rightarrow> unit action" where
  "show_titles [] = ok ()"
| "show_titles (r # rs) =
     (let r = unpack r in
      and_then (getitem r ''title'') (\<lambda>title.
      and_then (st (St_text title)) (\<lambda>u. show_titles rs)))"

text \<open>Lines 122-146, the tab "Browse".\<close>

definition tab3 :: "env \<Rightarrow> connection \<Rightarrow> coll \<Rightarrow> unit action" where
  "tab3 env db collection =
     and_then (random_product env db collection) (\<lambda>r0.
     let r = unpack r0 in
     and_then (getitem r ''img'') (\<lambda>img.
     and_then (getitem r ''title'') (\<lambda>title.
     and_then (st (St_image img (Some title))) (\<lambda>u.
     and_then (st (Markdown ''### Based on image'')) (\<lambda>u.
     and_then (getitem r ''img'') (\<lambda>img.
     and_then (image_search env db collection img) (\<lambda>image_results.
     and_then (show_images image_results r) (\<lambda>r.
     and_then (st (Markdown ''### Based on title'')) (\<lambda>u.
     and_then (getitem r ''title'') (\<lambda>title.
     and_then (text_2_text_search env db collection title) show_titles))))))))))"

text \<open>
  Lines 34-146, the body of \<open>if st.session_state['authentication_status']\<close>:
  \<open>db = _init()\<close> at line 56, then lines 59-146 (\<open>tabs\<close>).
\<close>

definition tabs :: "env \<Rightarrow> inputs \<Rightarrow> connection \<Rightarrow> unit action" where
  "tabs env inp db =
     (let collection = Collection ''multimodal'' in
      and_then (st (Title ''Retail with SuperDuperDB'')) (\<lambda>u.
      and_then (tab0 env inp collection) (\<lambda>collection.
      and_then (tab1 env inp db collection) (\<lambda>u.
      and_then (tab2 env inp db collection) (\<lambda>u.
      tab3 env db collection)))))"

definition content :: "env \<Rightarrow> inputs \<Rightarrow> unit action" where
  "content env inp = and_then (init_db env) (tabs env inp)"

text \<open>
  Lines 9-30 of one run, on a fresh page: the initialisation of the session state and,
  when the button was pressed, the login handler.
\<close>

definition gate :: "inputs \<Rightarrow> world \<Rightarrow> world" where
  "gate inp w0 =
     (let w1 = init_session_state (w0\<lparr>rendered := []\<rparr>)
      in if login_button inp
         then login (input_username inp) (input_password inp) w1 else w1)"

text \<open>
  One run of the script, top to bottom. \<open>None\<close> and \<open>False\<close> are falsy at line 33.
\<close>

definition script :: "env \<Rightarrow> inputs \<Rightarrow> unit action" where
  "script env inp w0 =
     (let w2 = gate inp w0
      in case session_state w2 ''authentication_status'' of
           None \<Rightarrow> raise (KeyError ''authentication_status'') w2
         | Some status \<Rightarrow> if status = Some True then content env inp w2 else ok () w2)"

text \<open>
  The session: the script runs once per interaction, each run on the state the run
  before it left, whether or not that run raised.
\<close>

definition initial_world :: world where
  "initial_world =
     \<lparr>session_state = Map.empty, cache_resource = None, opened = [], issued = [], rendered = []\<rparr>"

primrec runs :: "env \<Rightarrow> inputs list \<Rightarrow> world \<Rightarrow> world" where
  "runs env [] w = w"
| "runs env (inp # inps) w = runs env inps (snd (script env inp w))"

section \<open>The process and its sessions\<close>

text \<open>
  A Streamlit process serves several sessions (browser tabs), one run of the script at
  a time. \<open>st.session_state\<close> and the page belong to one session; the memo of
  \<open>st.cache_resource\<close> belongs to the process and is shared by all its sessions, as
  are the connections opened and the requests issued so far.
\<close>

record process =
  sessions :: "nat \<Rightarrow> (string \<rightharpoonup> bool option)"
  shared :: "connection option"
  connections :: "connection list"
  requests :: "request list"
  pages :: "nat \<Rightarrow> element list"

text \<open>What a run of the script in session \<open>s\<close> sees.\<close>

definition world_of :: "process \<Rightarrow> nat \<Rightarrow> world" where
  "world_of p s =
     \<lparr>session_state = sessions p s, cache_resource = shared p, opened = connections p,
      issued = requests p, rendered = pages p s\<rparr>"

text \<open>One interaction: the script runs in session \<open>s\<close> with the widgets' values \<open>inp\<close>.\<close>

definition interaction :: "env \<Rightarrow> nat \<Rightarrow> inputs \<Rightarrow> process \<Rightarrow> process" where
  "interaction env s inp p =
     (let w = snd (script env inp (world_of p s))
      in \<lparr>sessions = (sessions p)(s := session_state w), shared = cache_resource w,
          connections = opened w, requests = issued w, pages = (pages p)(s := rendered w)\<rparr>)"

primrec serve :: "env \<Rightarrow> (nat \<times> inputs) list \<Rightarrow> process \<Rightarrow> process" where
  "serve env [] p = p"
| "serve env (a # as) p = serve env as (interaction env (fst a) (snd a) p)"

definition process_start :: process where
  "process_start =
     \<lparr>sessions = (\<lambda>s. Map.empty), shared = None, connections = [], requests = [],
      pages = (\<lambda>s. [])\<rparr>"

section \<open>The digests computed in a run\<close>




section \<open>Predicates for the statements below\<close>

definition is_superduper :: "connection \<Rightarrow> bool" where
  "is_superduper c = (case c of Superduper uri artifacts downloads \<Rightarrow> True | MongoClient uri \<Rightarrow> False)"

definition keeps :: "(request \<Rightarrow> bool) \<Rightarrow> 'a action \<Rightarrow> bool" where
  "keeps P m \<longleftrightarrow>
     (\<forall>w. session_state (snd (m w)) = session_state w \<and>
          cache_resource (snd (m w)) = cache_resource w \<and>
          (\<exists>cs. opened (snd (m w)) = opened w @ cs \<and> (\<forall>c\<in>set cs. \<not> is_superduper c)) \<and>
          (\<exists>qs. issued (snd (m w)) = issued w @ qs \<and> (\<forall>q\<in>set qs. P q)))"

definition mongo_collection :: "env \<Rightarrow> coll" where
  "mongo_collection env = MongoCollection (MongoClient (mongodb_uri env)) ''ecommerce'' ''multimodal''"

fun executes_on :: "connection \<Rightarrow> coll \<Rightarrow> request \<Rightarrow> bool" where
  "executes_on db c (Execute d q) \<longleftrightarrow> d = db \<and> query_coll q = c"
| "executes_on db c (Find_limit c' flt proj n) \<longleftrightarrow> False"

fun raw_find :: "env \<Rightarrow> request \<Rightarrow> bool" where
  "raw_find env (Find_limit c flt proj n) \<longleftrightarrow>
     c = mongo_collection env \<and> proj = JObj [(''_id'', JNum 0)] \<and> n = 5"
| "raw_find env (Execute d q) \<longleftrightarrow> False"

definition session_inv :: "world \<Rightarrow> bool" where
  "session_inv w \<longleftrightarrow>
     filter is_superduper (opened w) = (case cache_resource w of None \<Rightarrow> [] | Some db \<Rightarrow> [db]) \<and>
     (\<forall>q\<in>set (issued w). case q of Execute d qu \<Rightarrow> cache_resource w = Some d | Find_limit c flt proj n \<Rightarrow> True)"


text \<open>The value of the global \<open>collection\<close> after the tab "Data".\<close>

definition rebound :: "env \<Rightarrow> inputs \<Rightarrow> coll" where
  "rebound env inp = (if query_button inp then mongo_collection env else Collection ''multimodal'')"

definition tabs_request :: "env \<Rightarrow> inputs \<Rightarrow> connection \<Rightarrow> request \<Rightarrow> bool" where
  "tabs_request env inp db q \<longleftrightarrow> raw_find env q \<or> executes_on db (rebound env inp) q"

text \<open>
  A statement is strict when a request that is answered by an exception is the last
  request it issues and the exception is its own result.
\<close>

definition strict :: "env \<Rightarrow> 'a action \<Rightarrow> bool" where
  "strict env m \<longleftrightarrow>
     (\<forall>w. \<exists>qs. issued (snd (m w)) = issued w @ qs \<and>
        (\<forall>qs1 q qs2 e. qs = qs1 @ q # qs2 \<and> respond env (issued w @ qs1) q = Inl e
           \<longrightarrow> qs2 = [] \<and> fst (m w) = Inl e))"

text \<open>A statement is quiet when it opens no connection.\<close>

definition quiet :: "'a action \<Rightarrow> bool" where
  "quiet m \<longleftrightarrow> (\<forall>w. opened (snd (m w)) = opened w)"

section \<open>How MongoDB answers the raw query\<close>

text \<open>
  The documented reading of the pymongo cursor \<open>find(filter, projection).limit(n)\<close>
  on the documents \<open>docs\<close> of a collection: the documents that match the filter, in
  order, each without the fields to which the projection gives the value 0, and at
  most \<open>n\<close> of them (\<open>limit(0)\<close> is no limit). What a filter matches is a parameter.
  This is the library's behaviour, not code of the script; it is used only to say what
  the request of the tab "Data" returns.
\<close>

fun excluded :: "json \<Rightarrow> string \<Rightarrow> bool" where
  "excluded (JObj fs) k \<longleftrightarrow> (k, JNum 0) \<in> set fs"
| "excluded proj k \<longleftrightarrow> False"

definition project :: "json \<Rightarrow> document \<Rightarrow> document" where
  "project proj d = filter (\<lambda>(k, v). \<not> excluded proj k) d"

definition find_limit ::
    "(json \<Rightarrow> document \<Rightarrow> bool) \<Rightarrow> document list \<Rightarrow> json \<Rightarrow> json \<Rightarrow> nat \<Rightarrow> document list" where
  "find_limit matches docs flt proj n =
     (let found = map (project proj) (filter (matches flt) docs)
      in if n = 0 then found else take n found)"

section \<open>Example data\<close>

text \<open>The widgets at rest: nothing typed, no button pressed, no file uploaded.\<close>

definition no_input :: inputs where
  "no_input =
     \<lparr>input_username = [], input_password = [], login_button = False,
      query = ''{}'', query_button = False, search_text = [], search_button = False,
      uploaded_file = None\<rparr>"

definition guest_login :: inputs where
  "guest_login = no_input\<lparr>input_username := ''guest'', input_password := ''guest'',
     login_button := True\<rparr>"

definition admin_login :: inputs where
  "admin_login = no_input\<lparr>input_username := ''admin'', input_password := ''password'',
     login_button := True\<rparr>"

definition raw_query :: inputs where
  "raw_query = no_input\<lparr>query_button := True\<rparr>"

definition shoe :: document where
  "shoe = [(''img'', PIL_Image ''shoe.png''), (''title'', Str ''Shoe'')]"

definition hat :: document where
  "hat = [(''img'', PIL_Image ''hat.png''), (''title'', Str ''Hat'')]"

text \<open>
  A backend holding two products: sampling yields the shoe, a search on the image
  index yields the shoe and then the hat, a search on the title index yields the shoe,
  and a raw query yields nothing.
\<close>

fun demo_respond :: "request list \<Rightarrow> request \<Rightarrow> error + document list" where
  "demo_respond history (Execute db (Aggregate c pipeline)) = Inr [shoe]"
| "demo_respond history (Execute db (Like_find c d index n f)) =
     (if index = ''my-index'' then Inr [shoe, hat] else Inr [shoe])"
| "demo_respond history (Find_limit c flt proj n) = Inr []"

definition demo_env :: env where
  "demo_env =
     \<lparr>getenv = (\<lambda>name. None),
      connect = (\<lambda>history c. None),
      respond = demo_respond,
      json_loads = (\<lambda>s. if s = ''{}'' then Inr (JObj []) else Inl (Raised ''JSONDecodeError'')),
      json_dumps = (\<lambda>docs. if docs = [] then Inr ''[]'' else Inl (Raised ''TypeError'')),
      Image_open = (\<lambda>file. Inr (PIL_Image file))\<rparr>"

definition authenticated_world :: world where
  "authenticated_world =
     initial_world\<lparr>session_state := [''authentication_status'' \<mapsto> Some True]\<rparr>"

text \<open>A raw query that is not JSON, and a backend that cannot be reached.\<close>

definition malformed_query :: inputs where
  "malformed_query = no_input\<lparr>query := ''{title:'', query_button := True\<rparr>"

definition down_env :: env where
  "down_env = demo_env\<lparr>respond := (\<lambda>history q. Inl (Raised ''ServerSelectionTimeoutError''))\<rparr>"

text \<open>A backend whose title index holds a document without an image.\<close>

definition sock :: document where
  "sock = [(''title'', Str ''Sock'')]"

fun bare_respond :: "request list \<Rightarrow> request \<Rightarrow> error + document list" where
  "bare_respond history (Execute db (Aggregate c pipeline)) = Inr [shoe]"
| "bare_respond history (Execute db (Like_find c d index n f)) =
     (if index = ''my-index'' then Inr [shoe] else Inr [sock])"
| "bare_respond history (Find_limit c flt proj n) = Inr []"

definition bare_env :: env where
  "bare_env = demo_env\<lparr>respond := bare_respond\<rparr>"

text \<open>Seven stored documents, each with an internal identifier.\<close>

definition seven_socks :: "document list" where
  "seven_socks =
     map (\<lambda>i. [(''_id'', Str i), (''title'', Str ''Sock'')])
       [''1'', ''2'', ''3'', ''4'', ''5'', ''6'', ''7'']"

text \<open>A search by text, an upload, and a backend whose image index holds a product without a title.\<close>

definition text_search :: inputs where
  "text_search = no_input\<lparr>search_text := ''shoe'', search_button := True\<rparr>"

definition upload :: inputs where
  "upload = no_input\<lparr>uploaded_file := Some ''photo.png''\<rparr>"

definition cap :: document where
  "cap = [(''img'', PIL_Image ''cap.png'')]"

fun capped_respond :: "request list \<Rightarrow> request \<Rightarrow> error + document list" where
  "capped_respond history (Execute db (Aggregate c pipeline)) = Inr [shoe]"
| "capped_respond history (Execute db (Like_find c d index n f)) =
     (if index = ''my-index'' then Inr [shoe, cap] else Inr [shoe])"
| "capped_respond history (Find_limit c flt proj n) = Inr []"

definition capped_env :: env where
  "capped_env = demo_env\<lparr>respond := capped_respond\<rparr>"

section \<open>Digests of the reference and of a wrong password\<close>

lemma hashed_password_value:
  "hashed_password = ''5e884898da28047151d0e56f8dc6292773603d0d6aabbdd62a11ef721d1542d8''"
  by code_simp

lemma hash_password_wrong:
  "hash_password ''wrong'' = ''8810ad581e59f2bc3928b261707a71308f7e139eb04820366dc4d5c18d980225''"
  by code_simp

section \<open>Sequencing and what a statement leaves unchanged\<close>

lemma and_then_ok [simp]: "and_then (ok x) f = f x"
  by (rule ext) (simp add: and_then_def ok_def)

lemma and_then_raise [simp]: "and_then (raise e) f = raise e"
  by (rule ext) (simp add: and_then_def raise_def)

lemma and_then_lift_Inr [simp]: "and_then (lift (Inr x)) f = f x"
  by (rule ext) (simp add: and_then_def lift_def)

lemma and_then_lift_Inl [simp]: "and_then (lift (Inl e)) f = raise e"
  by (rule ext) (simp add: and_then_def lift_def raise_def)

lemma and_then_cases:
  assumes "and_then m f w = (r, w')"
  obtains (raised) e where "m w = (Inl e, w')" "r = Inl e"
        | (returned) x w1 where "m w = (Inr x, w1)" "f x w1 = (r, w')"
  using assms by (auto simp: and_then_def split: prod.splits sum.splits)

lemma keepsI:
  assumes "\<And>w. session_state (snd (m w)) = session_state w"
    and "\<And>w. cache_resource (snd (m w)) = cache_resource w"
    and "\<And>w. \<exists>cs. opened (snd (m w)) = opened w @ cs \<and> (\<forall>c\<in>set cs. \<not> is_superduper c)"
    and "\<And>w. \<exists>qs. issued (snd (m w)) = issued w @ qs \<and> (\<forall>q\<in>set qs. P q)"
  shows "keeps P m"
  using assms unfolding keeps_def by blast

lemma keeps_ok [simp]: "keeps P (ok x)"
  by (simp add: keeps_def ok_def)

lemma keeps_raise [simp]: "keeps P (raise e)"
  by (simp add: keeps_def raise_def)

lemma keeps_lift [simp]: "keeps P (lift r)"
  by (simp add: keeps_def lift_def)

lemma keeps_st [simp]: "keeps P (st e)"
  by (simp add: keeps_def st_def)

lemma keeps_getitem [simp]: "keeps P (getitem r k)"
  by (simp add: getitem_def split: option.splits)

lemma keeps_request: "P q \<Longrightarrow> keeps P (request env q)"
  by (simp add: keeps_def request_def)

lemma keeps_open_client [simp]: "keeps P (open_connection env (MongoClient uri))"
  by (simp add: keeps_def open_connection_def is_superduper_def split: option.splits)

lemma keeps_and_then_result:
  assumes m: "keeps P m" and f: "\<And>x w w'. m w = (Inr x, w') \<Longrightarrow> keeps P (f x)"
  shows "keeps P (and_then m f)"
proof (rule keepsI)
  fix w
  obtain r w1 where mw: "m w = (r, w1)" by (cases "m w")
  from m have m1: "session_state w1 = session_state w" "cache_resource w1 = cache_resource w"
    and m2: "\<exists>cs. opened w1 = opened w @ cs \<and> (\<forall>c\<in>set cs. \<not> is_superduper c)"
    and m3: "\<exists>qs. issued w1 = issued w @ qs \<and> (\<forall>q\<in>set qs. P q)"
    using mw unfolding keeps_def by (metis snd_conv)+
  show "session_state (snd (and_then m f w)) = session_state w"
    using mw m1 f [of w] by (cases r) (simp_all add: and_then_def keeps_def)
  show "cache_resource (snd (and_then m f w)) = cache_resource w"
    using mw m1 f [of w] by (cases r) (simp_all add: and_then_def keeps_def)
  show "\<exists>cs. opened (snd (and_then m f w)) = opened w @ cs \<and> (\<forall>c\<in>set cs. \<not> is_superduper c)"
  proof (cases r)
    case (Inl e)
    then show ?thesis using mw m2 by (simp add: and_then_def)
  next
    case (Inr x)
    from f [of w x w1] mw Inr obtain cs2 where "opened (snd (f x w1)) = opened w1 @ cs2" "\<forall>c\<in>set cs2. \<not> is_superduper c"
      unfolding keeps_def by blast
    moreover from m2 obtain cs1 where "opened w1 = opened w @ cs1" "\<forall>c\<in>set cs1. \<not> is_superduper c"
      by blast
    ultimately have "opened (snd (f x w1)) = opened w @ (cs1 @ cs2) \<and> (\<forall>c\<in>set (cs1 @ cs2). \<not> is_superduper c)"
      by auto
    then show ?thesis using mw Inr by (auto simp: and_then_def simp del: append_assoc)
  qed
  show "\<exists>qs. issued (snd (and_then m f w)) = issued w @ qs \<and> (\<forall>q\<in>set qs. P q)"
  proof (cases r)
    case (Inl e)
    then show ?thesis using mw m3 by (simp add: and_then_def)
  next
    case (Inr x)
    from f [of w x w1] mw Inr obtain qs2 where "issued (snd (f x w1)) = issued w1 @ qs2" "\<forall>q\<in>set qs2. P q"
      unfolding keeps_def by blast
    moreover from m3 obtain qs1 where "issued w1 = issued w @ qs1" "\<forall>q\<in>set qs1. P q"
      by blast
    ultimately have "issued (snd (f x w1)) = issued w @ (qs1 @ qs2) \<and> (\<forall>q\<in>set (qs1 @ qs2). P q)"
      by auto
    then show ?thesis using mw Inr by (auto simp: and_then_def simp del: append_assoc)
  qed
qed

lemma keeps_and_then: "keeps P m \<Longrightarrow> (\<And>x. keeps P (f x)) \<Longrightarrow> keeps P (and_then m f)"
  by (rule keeps_and_then_result)

lemma keeps_show_results [simp]: "keeps P (show_results rs)"
  by (induction rs) (simp_all add: keeps_and_then Let_def)

lemma keeps_show_images [simp]: "keeps P (show_images rs r)"
  by (induction rs arbitrary: r) (simp_all add: keeps_and_then Let_def)

lemma keeps_show_titles [simp]: "keeps P (show_titles rs)"
  by (induction rs) (simp_all add: keeps_and_then Let_def)


lemma keeps_weaken: "keeps P m \<Longrightarrow> (\<And>q. P q \<Longrightarrow> Q q) \<Longrightarrow> keeps Q m"
  unfolding keeps_def by blast

lemma keeps_search: "keeps (executes_on db c) (search env db c k v index n)"
  by (simp add: search_def keeps_request)

lemma keeps_random_product: "keeps (executes_on db c) (random_product env db c)"
  by (auto simp: random_product_def intro!: keeps_and_then keeps_request split: list.splits)

lemma keeps_tab1: "keeps (executes_on db c) (tab1 env inp db c)"
  by (simp add: tab1_def text_2_image_search_def keeps_and_then keeps_search)

lemma keeps_tab2: "keeps (executes_on db c) (tab2 env inp db c)"
  by (simp add: tab2_def image_search_def keeps_and_then keeps_search split: option.splits)

lemma keeps_tab3: "keeps (executes_on db c) (tab3 env db c)"
  unfolding tab3_def Let_def text_2_text_search_def image_search_def
  by (intro keeps_and_then keeps_random_product keeps_search keeps_getitem keeps_st
        keeps_show_images keeps_show_titles)

lemma open_connection_result:
  "and_then (open_connection env c) f = and_then (open_connection env c) (\<lambda>x. f c)"
  by (rule ext) (simp add: and_then_def open_connection_def split: option.splits)

lemma keeps_tab0: "keeps (raw_find env) (tab0 env inp c)"
  unfolding tab0_def Let_def
  by (subst open_connection_result)
     (auto intro!: keeps_and_then keeps_request simp: mongo_collection_def)

section \<open>The credential gate\<close>

lemma login_condition_eq:
  "login_condition u p \<longleftrightarrow> u = ''admin'' \<and> hash_password p = hash_password ''password''"
  by (simp add: login_condition_def USERNAME_def hashed_password_def PASSWORD_def
      hash_password_def)

lemma hash_password_reference:
  "hash_password ''password'' =
     ''5e884898da28047151d0e56f8dc6292773603d0d6aabbdd62a11ef721d1542d8''"
  using hashed_password_value by (simp add: hashed_password_def PASSWORD_def)

lemma login_admin_password: "login_condition ''admin'' ''password''"
  by (simp add: login_condition_eq)

lemma login_admin_wrong: "\<not> login_condition ''admin'' ''wrong''"
  by (simp add: login_condition_eq hash_password_reference hash_password_wrong)

lemma login_other_user: "u \<noteq> ''admin'' \<Longrightarrow> \<not> login_condition u p"
  by (simp add: login_condition_eq)

text \<open>
  C1. The condition of the login handler holds exactly when the username is
  \<open>admin\<close>, compared byte for byte, and the SHA-256 hex digest of the password equals
  the digest of the reference password \<open>password\<close>. It holds for
  \<open>("admin", "password")\<close> and fails for \<open>("admin", "wrong")\<close> and for
  \<open>("Admin", "password")\<close>.
\<close>

theorem login_condition_iff:
  "(login_condition u p \<longleftrightarrow> u = ''admin'' \<and> hash_password p = hash_password ''password'')
   \<and> login_condition ''admin'' ''password''
   \<and> \<not> login_condition ''admin'' ''wrong''
   \<and> \<not> login_condition ''Admin'' ''password''"
  using login_condition_eq [of u p] login_admin_password login_admin_wrong
    login_other_user [of "''Admin''" "''password''"]
  by simp

section \<open>What the tabs ask for\<close>

lemma tab0_result:
  assumes "tab0 env inp c w = (Inr c', w')"
  shows "c' = (if query_button inp then mongo_collection env else c)"
proof (cases "query_button inp")
  case False
  with assms show ?thesis by (simp add: tab0_def ok_def)
next
  case True
  have "tab0 env inp c w = (Inr c', w') \<Longrightarrow> c' = mongo_collection env"
    unfolding tab0_def Let_def
    by (subst (asm) open_connection_result)
       (auto simp: True mongo_collection_def ok_def elim!: and_then_cases)
  with assms True show ?thesis by simp
qed

lemma keeps_tabs: "keeps (tabs_request env inp db) (tabs env inp db)"
proof -
  let ?P = "tabs_request env inp db"
  have rest: "keeps ?P (and_then (tab1 env inp db c) (\<lambda>u.
                and_then (tab2 env inp db c) (\<lambda>u. tab3 env db c)))"
    if "c = rebound env inp" for c
    by (intro keeps_and_then keeps_weaken [OF keeps_tab1] keeps_weaken [OF keeps_tab2]
          keeps_weaken [OF keeps_tab3])
       (simp_all add: tabs_request_def that)
  have t0: "keeps ?P (tab0 env inp (Collection ''multimodal''))"
    by (rule keeps_weaken [OF keeps_tab0]) (simp add: tabs_request_def)
  show ?thesis
    unfolding tabs_def Let_def
    apply (rule keeps_and_then [OF keeps_st])
    apply (rule keeps_and_then_result [OF t0])
    apply (rule rest)
    apply (drule tab0_result)
    apply (simp add: rebound_def)
    done
qed

section \<open>The backend handle and the session\<close>

lemma init_db_cached: "cache_resource w = Some db \<Longrightarrow> init_db env w = (Inr db, w)"
  by (simp add: init_db_def)

lemma init_db_fresh:
  "cache_resource w = None \<Longrightarrow>
   init_db env w =
     (case connect env (opened w) (superduper_connection env) of
        Some e \<Rightarrow> (Inl e, w)
      | None \<Rightarrow> (Inr (superduper_connection env),
                 w\<lparr>opened := opened w @ [superduper_connection env],
                   cache_resource := Some (superduper_connection env)\<rparr>))"
  by (simp add: init_db_def and_then_def open_connection_def split: option.splits)

lemma is_superduper_connection [simp]: "is_superduper (superduper_connection env)"
  by (simp add: is_superduper_def superduper_connection_def)

lemma tabs_session_state: "session_state (snd (tabs env inp db w)) = session_state w"
  using keeps_tabs [of env inp db] by (simp add: keeps_def)

lemma tabs_inv:
  assumes "cache_resource w = Some db" and "session_inv w"
  shows "session_inv (snd (tabs env inp db w))"
proof -
  let ?w' = "snd (tabs env inp db w)"
  from keeps_tabs [of env inp db]
  have cache: "cache_resource ?w' = cache_resource w"
    and "\<exists>cs. opened ?w' = opened w @ cs \<and> (\<forall>c\<in>set cs. \<not> is_superduper c)"
    and "\<exists>qs. issued ?w' = issued w @ qs \<and> (\<forall>q\<in>set qs. tabs_request env inp db q)"
    by (simp_all add: keeps_def)
  then obtain cs qs where cs: "opened ?w' = opened w @ cs" "\<forall>c\<in>set cs. \<not> is_superduper c"
    and qs: "issued ?w' = issued w @ qs" "\<forall>q\<in>set qs. tabs_request env inp db q"
    by blast
  have "filter is_superduper (opened ?w') = filter is_superduper (opened w)"
    using cs by simp
  moreover have "case q of Execute d qu \<Rightarrow> cache_resource ?w' = Some d
                 | Find_limit c flt proj n \<Rightarrow> True"
    if "q \<in> set (issued ?w')" for q
  proof (cases "q \<in> set (issued w)")
    case True
    with assms(2) show ?thesis
      by (cases q) (auto simp: session_inv_def cache)
  next
    case False
    with that qs have "tabs_request env inp db q" by auto
    then show ?thesis
      by (cases q) (simp_all add: tabs_request_def cache assms(1))
  qed
  ultimately show ?thesis
    using assms(2) by (simp add: session_inv_def cache)
qed

lemma content_session_state: "session_state (snd (content env inp w)) = session_state w"
proof (cases "cache_resource w")
  case (Some db)
  then show ?thesis
    by (simp add: content_def and_then_def init_db_cached tabs_session_state)
next
  case None
  then show ?thesis
    by (simp add: content_def and_then_def init_db_fresh tabs_session_state
        split: option.splits)
qed

lemma content_inv:
  assumes "session_inv w"
  shows "session_inv (snd (content env inp w))"
proof (cases "cache_resource w")
  case (Some db)
  with assms show ?thesis
    by (simp add: content_def and_then_def init_db_cached tabs_inv)
next
  case None
  let ?c = "superduper_connection env"
  let ?w1 = "w\<lparr>opened := opened w @ [?c], cache_resource := Some ?c\<rparr>"
  show ?thesis
  proof (cases "connect env (opened w) ?c")
    case (Some e)
    with None assms show ?thesis
      by (simp add: content_def and_then_def init_db_fresh)
  next
    case none: None
    have "\<not> (\<exists>d qu. Execute d qu \<in> set (issued w))"
      using assms None by (fastforce simp: session_inv_def)
    then have "session_inv ?w1"
      using assms None by (auto simp: session_inv_def split: request.splits)
    then have "session_inv (snd (tabs env inp ?c ?w1))"
      by (intro tabs_inv) simp_all
    with None none show ?thesis
      by (simp add: content_def and_then_def init_db_fresh)
  qed
qed

section \<open>Requests that fail\<close>

lemma strict_silent:
  assumes "\<And>w. issued (snd (m w)) = issued w"
  shows "strict env m"
  using assms by (simp add: strict_def)

lemma strict_ok [simp]: "strict env (ok x)"
  by (rule strict_silent) (simp add: ok_def)

lemma strict_raise [simp]: "strict env (raise e)"
  by (rule strict_silent) (simp add: raise_def)

lemma strict_lift [simp]: "strict env (lift r)"
  by (rule strict_silent) (simp add: lift_def)

lemma strict_st [simp]: "strict env (st e)"
  by (rule strict_silent) (simp add: st_def)

lemma strict_getitem [simp]: "strict env (getitem r k)"
  by (simp add: getitem_def split: option.splits)

lemma strict_open_connection [simp]: "strict env (open_connection env c)"
  by (rule strict_silent) (simp add: open_connection_def split: option.splits)

lemma strict_init_db [simp]: "strict env (init_db env)"
  by (rule strict_silent)
     (simp add: init_db_def and_then_def open_connection_def split: option.splits)

lemma strict_request [simp]: "strict env (request env q)"
  unfolding strict_def
proof
  fix w
  have "\<forall>qs1 q' qs2 e. [q] = qs1 @ q' # qs2 \<and> respond env (issued w @ qs1) q' = Inl e
          \<longrightarrow> qs2 = [] \<and> fst (request env q w) = Inl e"
    by (auto simp: request_def Cons_eq_append_conv)
  then show "\<exists>qs. issued (snd (request env q w)) = issued w @ qs \<and>
      (\<forall>qs1 q' qs2 e. qs = qs1 @ q' # qs2 \<and> respond env (issued w @ qs1) q' = Inl e
          \<longrightarrow> qs2 = [] \<and> fst (request env q w) = Inl e)"
    by (intro exI [of _ "[q]"]) (simp add: request_def)
qed

lemma strict_and_then:
  assumes m: "strict env m" and f: "\<And>x. strict env (f x)"
  shows "strict env (and_then m f)"
  unfolding strict_def
proof
  fix w
  obtain r w1 where mw: "m w = (r, w1)" by (cases "m w")
  from m obtain qsm where qsm: "issued w1 = issued w @ qsm"
    and failm: "\<And>qs1 q qs2 e. qsm = qs1 @ q # qs2 \<Longrightarrow> respond env (issued w @ qs1) q = Inl e
                  \<Longrightarrow> qs2 = [] \<and> r = Inl e"
    using mw unfolding strict_def by (metis fst_conv snd_conv)
  show "\<exists>qs. issued (snd (and_then m f w)) = issued w @ qs \<and>
      (\<forall>qs1 q qs2 e. qs = qs1 @ q # qs2 \<and> respond env (issued w @ qs1) q = Inl e
          \<longrightarrow> qs2 = [] \<and> fst (and_then m f w) = Inl e)"
  proof (cases r)
    case (Inl e)
    then have "and_then m f w = (Inl e, w1)"
      using mw by (simp add: and_then_def)
    then show ?thesis
      using qsm failm Inl by (intro exI [of _ qsm]) auto
  next
    case (Inr x)
    then have eq: "and_then m f w = f x w1"
      using mw by (simp add: and_then_def)
    from f [of x] obtain qsf where qsf: "issued (snd (f x w1)) = issued w1 @ qsf"
      and failf: "\<And>qs1 q qs2 e. qsf = qs1 @ q # qs2 \<Longrightarrow>
                    respond env (issued w1 @ qs1) q = Inl e \<Longrightarrow>
                    qs2 = [] \<and> fst (f x w1) = Inl e"
      unfolding strict_def by metis
    have "qs2 = [] \<and> fst (f x w1) = Inl e"
      if split: "qsm @ qsf = qs1 @ q # qs2" and fails: "respond env (issued w @ qs1) q = Inl e"
      for qs1 q qs2 e
    proof -
      from split consider us where "qsm = qs1 @ us" "us @ qsf = q # qs2"
        | us where "qsm @ us = qs1" "qsf = us @ q # qs2"
        by (auto simp: append_eq_append_conv2)
      then show ?thesis
      proof cases
        case 1
        show ?thesis
        proof (cases us)
          case Nil
          with 1 have "qsf = [] @ q # qs2" "issued w1 @ [] = issued w @ qs1"
            using qsm by simp_all
          then show ?thesis
            using failf [of "[]" q qs2 e] fails by simp
        next
          case (Cons u us')
          with 1 have "qsm = qs1 @ q # us'" by simp
          from failm [OF this fails] Inr show ?thesis by simp
        qed
      next
        case 2
        then have "issued w1 @ us = issued w @ qs1"
          using qsm by simp
        with failf [of us q qs2 e] 2 fails show ?thesis by simp
      qed
    qed
    then show ?thesis
      using qsm qsf eq by (intro exI [of _ "qsm @ qsf"]) simp
  qed
qed

lemma strict_show_results [simp]: "strict env (show_results rs)"
  by (induction rs) (simp_all add: strict_and_then Let_def)

lemma strict_show_images [simp]: "strict env (show_images rs r)"
  by (induction rs arbitrary: r) (simp_all add: strict_and_then Let_def)

lemma strict_show_titles [simp]: "strict env (show_titles rs)"
  by (induction rs) (simp_all add: strict_and_then Let_def)

lemma strict_search [simp]: "strict env (search env db c k v index n)"
  by (simp add: search_def)

lemma strict_random_product [simp]: "strict env (random_product env db c)"
  by (auto simp: random_product_def intro!: strict_and_then split: list.splits)

lemma strict_tabs: "strict env (tabs env inp db)"
  unfolding tabs_def tab0_def tab1_def tab2_def tab3_def Let_def
    text_2_image_search_def text_2_text_search_def image_search_def
  by (auto intro!: strict_and_then split: option.splits)

lemma strict_content: "strict env (content env inp)"
  by (simp add: content_def strict_and_then strict_tabs)

section \<open>The requests of a statement, in order\<close>

lemma and_then_assoc: "and_then (and_then m f) g = and_then m (\<lambda>x. and_then (f x) g)"
  by (rule ext) (simp add: and_then_def split: prod.splits sum.splits)

lemma keeps_issued:
  "keeps P m \<Longrightarrow> \<exists>qs. issued (snd (m w)) = issued w @ qs \<and> (\<forall>q\<in>set qs. P q)"
  by (simp add: keeps_def)

lemma issued_request_then:
  assumes "\<And>x. keeps P (F x)"
  shows "\<exists>qs. issued (snd (and_then (request env q) F w)) = issued w @ q # qs \<and>
           (\<forall>q\<in>set qs. P q)"
proof (cases "respond env (issued w) q")
  case (Inl e)
  then show ?thesis by (simp add: and_then_def request_def)
next
  case (Inr res)
  from keeps_issued [OF assms, of res "w\<lparr>issued := issued w @ [q]\<rparr>"] Inr
  show ?thesis by (simp add: and_then_def request_def)
qed

lemma tab3_first_request:
  "\<exists>qs. issued (snd (tab3 env db c w)) =
          issued w @ Execute db (Aggregate c sample_pipeline) # qs \<and>
        (\<forall>q\<in>set qs. executes_on db c q)"
  unfolding tab3_def random_product_def and_then_assoc Let_def
    text_2_text_search_def image_search_def
  by (rule issued_request_then)
     (auto intro!: keeps_and_then keeps_search split: list.splits)

lemma tab0_requests:
  "issued (snd (tab0 env inp c w)) = issued w \<or>
   (\<exists>flt. issued (snd (tab0 env inp c w)) =
      issued w @ [Find_limit (mongo_collection env) flt (JObj [(''_id'', JNum 0)]) 5])"
  by (auto simp: tab0_def and_then_def ok_def raise_def lift_def st_def request_def
      open_connection_def mongo_collection_def Let_def
      split: option.splits sum.splits prod.splits)

section \<open>Projection and limit\<close>

lemma map_of_project:
  "excluded proj k \<Longrightarrow> map_of (project proj d) k = None"
  by (induction d) (auto simp: project_def)

lemma find_limit_excluded:
  "excluded proj k \<Longrightarrow> d \<in> set (find_limit matches docs flt proj n) \<Longrightarrow> map_of d k = None"
  by (auto simp: find_limit_def Let_def map_of_project split: if_splits dest!: in_set_takeD)

lemma length_find_limit: "0 < n \<Longrightarrow> length (find_limit matches docs flt proj n) \<le> n"
  by (simp add: find_limit_def Let_def)

section \<open>The session state across runs\<close>

lemma init_session_state_frame [simp]:
  "cache_resource (init_session_state w) = cache_resource w"
  "opened (init_session_state w) = opened w"
  "issued (init_session_state w) = issued w"
  "rendered (init_session_state w) = rendered w"
  by (simp_all add: init_session_state_def split: option.splits)

lemma login_frame [simp]:
  "cache_resource (login u p w) = cache_resource w"
  "opened (login u p w) = opened w"
  "issued (login u p w) = issued w"
  by (simp_all add: login_def)

lemma gate_frame [simp]:
  "cache_resource (gate inp w) = cache_resource w"
  "opened (gate inp w) = opened w"
  "issued (gate inp w) = issued w"
  by (simp_all add: gate_def Let_def)

lemma session_state_login:
  "session_state (login u p w) =
     (session_state w)(''authentication_status'' \<mapsto> Some (login_condition u p))"
  by (simp add: login_def)

lemma gate_status:
  "session_state (gate inp w) ''authentication_status'' =
     Some (if login_button inp
           then Some (login_condition (input_username inp) (input_password inp))
           else (case session_state w ''authentication_status'' of
                   None \<Rightarrow> None | Some v \<Rightarrow> v))"
  by (simp add: gate_def Let_def session_state_login init_session_state_def
      split: option.splits)

lemma script_rejected:
  "session_state (gate inp w) ''authentication_status'' \<noteq> Some (Some True) \<Longrightarrow>
   script env inp w = (Inr (), gate inp w)"
  using gate_status [of inp w]
  by (auto simp: script_def Let_def ok_def split: option.splits)

lemma script_authenticated:
  "session_state (gate inp w) ''authentication_status'' = Some (Some True) \<Longrightarrow>
   script env inp w = content env inp (gate inp w)"
  by (simp add: script_def Let_def)

lemma script_session_state:
  "session_state (snd (script env inp w)) = session_state (gate inp w)"
proof (cases "session_state (gate inp w) ''authentication_status'' = Some (Some True)")
  case True
  then show ?thesis by (simp add: script_authenticated content_session_state)
next
  case False
  then show ?thesis by (simp add: script_rejected)
qed

lemma gate_inv: "session_inv w \<Longrightarrow> session_inv (gate inp w)"
  by (auto simp: session_inv_def split: request.splits)

lemma script_inv: "session_inv w \<Longrightarrow> session_inv (snd (script env inp w))"
proof (cases "session_state (gate inp w) ''authentication_status'' = Some (Some True)")
  case True
  assume "session_inv w"
  with True show ?thesis by (simp add: script_authenticated content_inv gate_inv)
next
  case False
  assume "session_inv w"
  with False show ?thesis by (simp add: script_rejected gate_inv)
qed

lemma strict_after_gate:
  assumes "strict env m"
  shows "strict env (\<lambda>w. m (gate inp w))"
  unfolding strict_def
proof
  fix w
  from assms have "\<exists>qs. issued (snd (m (gate inp w))) = issued (gate inp w) @ qs \<and>
      (\<forall>qs1 q qs2 e. qs = qs1 @ q # qs2 \<and> respond env (issued (gate inp w) @ qs1) q = Inl e
          \<longrightarrow> qs2 = [] \<and> fst (m (gate inp w)) = Inl e)"
    unfolding strict_def by blast
  then show "\<exists>qs. issued (snd (m (gate inp w))) = issued w @ qs \<and>
      (\<forall>qs1 q qs2 e. qs = qs1 @ q # qs2 \<and> respond env (issued w @ qs1) q = Inl e
          \<longrightarrow> qs2 = [] \<and> fst (m (gate inp w)) = Inl e)"
    by simp
qed

lemma strict_script: "strict env (script env inp)"
proof -
  have "script env inp w = content env inp (gate inp w) \<or> script env inp w = ok () (gate inp w)"
    for w
    using script_rejected [of inp w env] script_authenticated [of inp w env]
    by (auto simp: ok_def)
  moreover note strict_after_gate [OF strict_content, of env inp inp]
    strict_after_gate [OF strict_ok, of env "()" inp]
  ultimately show ?thesis
    unfolding strict_def by metis
qed

section \<open>Sequencing after an element or a connection\<close>

lemma st_then: "and_then (st e) K w = K () (w\<lparr>rendered := rendered w @ [e]\<rparr>)"
  by (simp add: and_then_def st_def)

section \<open>Rendering the results\<close>

lemma fst_show_results:
  "fst (show_results rs w) =
     (case find (\<lambda>r. map_of r ''img'' = None \<or> map_of r ''title'' = None) rs of
        None \<Rightarrow> Inr ()
      | Some r \<Rightarrow> Inl (KeyError (if map_of r ''img'' = None then ''img'' else ''title'')))"
  by (induction rs arbitrary: w)
     (auto simp: Let_def unpack_def getitem_def and_then_def ok_def raise_def st_def
       split: option.splits)

lemma show_titles_eq:
  "show_titles rs w =
     (case find (\<lambda>r. map_of r ''title'' = None) rs of
        None \<Rightarrow> Inr ()
      | Some r \<Rightarrow> Inl (KeyError ''title''),
      w\<lparr>rendered := rendered w @
         map St_text (List.map_filter (\<lambda>r. map_of r ''title'')
           (takeWhile (\<lambda>r. map_of r ''title'' \<noteq> None) rs))\<rparr>)"
  by (induction rs arbitrary: w)
     (auto simp: Let_def unpack_def getitem_def and_then_def ok_def raise_def st_def
       split: option.splits)

lemma show_images_eq:
  "show_images rs r0 w =
     (case find (\<lambda>r. map_of r ''img'' = None) rs of
        None \<Rightarrow> Inr (last (r0 # rs))
      | Some r \<Rightarrow> Inl (KeyError ''img''),
      w\<lparr>rendered := rendered w @
         map (\<lambda>img. St_image img None) (List.map_filter (\<lambda>r. map_of r ''img'')
           (takeWhile (\<lambda>r. map_of r ''img'' \<noteq> None) rs))\<rparr>)"
  by (induction rs arbitrary: w r0)
     (auto simp: Let_def unpack_def getitem_def and_then_def ok_def raise_def st_def
       split: option.splits)

lemma fst_random_product:
  "fst (random_product env db c w) =
     (case respond env (issued w) (Execute db (Aggregate c sample_pipeline)) of
        Inl e \<Rightarrow> Inl e
      | Inr [] \<Rightarrow> Inl StopIteration
      | Inr (r # rs) \<Rightarrow> Inr r)"
  by (simp add: random_product_def and_then_def request_def ok_def raise_def
      split: sum.splits list.splits)

lemma fst_tab0:
  "fst (tab0 env inp c w) =
     (if query_button inp then
        (case connect env (opened w) (MongoClient (mongodb_uri env)) of
           Some e \<Rightarrow> Inl e
         | None \<Rightarrow>
        (case json_loads env (query inp) of
           Inl e \<Rightarrow> Inl e
         | Inr flt \<Rightarrow>
        (case respond env (issued w)
           (Find_limit (mongo_collection env) flt (JObj [(''_id'', JNum 0)]) 5) of
           Inl e \<Rightarrow> Inl e
         | Inr res \<Rightarrow>
        (case json_dumps env res of
           Inl e \<Rightarrow> Inl e
         | Inr s \<Rightarrow> Inr (mongo_collection env)))))
      else Inr c)"
  by (simp add: tab0_def and_then_def open_connection_def lift_def request_def st_def ok_def
      mongo_collection_def Let_def split: option.splits sum.splits)

lemma fst_tab1:
  "fst (tab1 env inp db c w) =
     (if search_button inp then
        (case respond env (issued w)
           (Execute db (Like_find c [(''search'', Str (search_text inp))] ''my-index'' 3 (JObj [])))
         of Inl e \<Rightarrow> Inl e
          | Inr rs \<Rightarrow>
              (case find (\<lambda>r. map_of r ''img'' = None \<or> map_of r ''title'' = None) rs of
                 None \<Rightarrow> Inr ()
               | Some r \<Rightarrow>
                   Inl (KeyError (if map_of r ''img'' = None then ''img'' else ''title''))))
      else Inr ())"
  by (simp add: tab1_def text_2_image_search_def search_def and_then_def request_def ok_def
      fst_show_results split: sum.splits)

lemma fst_tab2:
  "fst (tab2 env inp db c w) =
     (case uploaded_file inp of
        None \<Rightarrow> Inr ()
      | Some file \<Rightarrow>
          (case Image_open env file of
             Inl e \<Rightarrow> Inl e
           | Inr im \<Rightarrow>
               (case respond env (issued w)
                  (Execute db (Like_find c [(''img'', pil_image im)] ''my-index'' 3 (JObj [])))
                of Inl e \<Rightarrow> Inl e
                 | Inr rs \<Rightarrow>
                     (case find (\<lambda>r. map_of r ''img'' = None \<or> map_of r ''title'' = None) rs of
                        None \<Rightarrow> Inr ()
                      | Some r \<Rightarrow>
                          Inl (KeyError (if map_of r ''img'' = None then ''img'' else ''title''))))))"
  by (simp add: tab2_def image_search_def search_def and_then_def request_def ok_def lift_def
      fst_show_results split: sum.splits option.splits)

lemma fst_tab3:
  "fst (tab3 env db c w) =
     (case respond env (issued w) (Execute db (Aggregate c sample_pipeline)) of
        Inl e \<Rightarrow> Inl e
      | Inr [] \<Rightarrow> Inl StopIteration
      | Inr (r0 # rest) \<Rightarrow>
     (case map_of r0 ''img'' of
        None \<Rightarrow> Inl (KeyError ''img'')
      | Some img \<Rightarrow>
     (case map_of r0 ''title'' of
        None \<Rightarrow> Inl (KeyError ''title'')
      | Some title \<Rightarrow>
     (case respond env (issued w @ [Execute db (Aggregate c sample_pipeline)])
        (Execute db (Like_find c [(''img'', pil_image img)] ''my-index'' 3 (JObj []))) of
        Inl e \<Rightarrow> Inl e
      | Inr image_results \<Rightarrow>
     (case find (\<lambda>r. map_of r ''img'' = None) image_results of
        Some r \<Rightarrow> Inl (KeyError ''img'')
      | None \<Rightarrow>
     (case map_of (last (r0 # image_results)) ''title'' of
        None \<Rightarrow> Inl (KeyError ''title'')
      | Some t \<Rightarrow>
     (case respond env
        (issued w @ [Execute db (Aggregate c sample_pipeline),
           Execute db (Like_find c [(''img'', pil_image img)] ''my-index'' 3 (JObj []))])
        (Execute db (Like_find c [(''title'', t)] ''text-index'' 10 (JObj []))) of
        Inl e \<Rightarrow> Inl e
      | Inr text_results \<Rightarrow>
     (case find (\<lambda>r. map_of r ''title'' = None) text_results of
        Some r \<Rightarrow> Inl (KeyError ''title'')
      | None \<Rightarrow> Inr ()))))))))"
  by (simp add: tab3_def random_product_def text_2_text_search_def image_search_def search_def
      and_then_def request_def getitem_def ok_def raise_def st_def unpack_def Let_def
      show_images_eq show_titles_eq
      split: sum.splits list.splits option.splits)

section \<open>The connections of a run, exactly\<close>

lemma quiet_ok [simp]: "quiet (ok x)"
  by (simp add: quiet_def ok_def)

lemma quiet_raise [simp]: "quiet (raise e)"
  by (simp add: quiet_def raise_def)

lemma quiet_lift [simp]: "quiet (lift r)"
  by (simp add: quiet_def lift_def)

lemma quiet_st [simp]: "quiet (st e)"
  by (simp add: quiet_def st_def)

lemma quiet_getitem [simp]: "quiet (getitem r k)"
  by (simp add: getitem_def split: option.splits)

lemma quiet_request [simp]: "quiet (request env q)"
  by (simp add: quiet_def request_def)

lemma quiet_and_then:
  assumes m: "quiet m" and f: "\<And>x. quiet (f x)"
  shows "quiet (and_then m f)"
  unfolding quiet_def
proof
  fix w
  obtain r w1 where mw: "m w = (r, w1)" by (cases "m w")
  with m have w1: "opened w1 = opened w"
    unfolding quiet_def by (metis snd_conv)
  show "opened (snd (and_then m f w)) = opened w"
  proof (cases r)
    case (Inl e)
    with mw w1 show ?thesis by (simp add: and_then_def)
  next
    case (Inr x)
    with mw w1 f [of x] show ?thesis by (simp add: and_then_def quiet_def)
  qed
qed

lemma quiet_show_results [simp]: "quiet (show_results rs)"
  by (induction rs) (simp_all add: quiet_and_then Let_def)

lemma quiet_show_images [simp]: "quiet (show_images rs r)"
  by (induction rs arbitrary: r) (simp_all add: quiet_and_then Let_def)

lemma quiet_show_titles [simp]: "quiet (show_titles rs)"
  by (induction rs) (simp_all add: quiet_and_then Let_def)

lemma quiet_search [simp]: "quiet (search env db c k v index n)"
  by (simp add: search_def)

lemma quiet_random_product [simp]: "quiet (random_product env db c)"
  by (auto simp: random_product_def intro!: quiet_and_then split: list.splits)

lemma quiet_tab1 [simp]: "quiet (tab1 env inp db c)"
  by (simp add: tab1_def text_2_image_search_def quiet_and_then)

lemma quiet_tab2 [simp]: "quiet (tab2 env inp db c)"
  by (simp add: tab2_def image_search_def quiet_and_then split: option.splits)

lemma quiet_tab3 [simp]: "quiet (tab3 env db c)"
  unfolding tab3_def Let_def text_2_text_search_def image_search_def
  by (intro quiet_and_then quiet_random_product quiet_search quiet_getitem quiet_st
        quiet_show_images quiet_show_titles)

lemma open_connection_then:
  "connect env (opened w) c = None \<Longrightarrow>
   and_then (open_connection env c) F w = F c (w\<lparr>opened := opened w @ [c]\<rparr>)"
  by (simp add: and_then_def open_connection_def)

lemma open_connection_refused:
  "connect env (opened w) c = Some e \<Longrightarrow>
   and_then (open_connection env c) F w = (Inl e, w)"
  by (simp add: and_then_def open_connection_def)

lemma tabs_opened:
  "opened (snd (tabs env inp db w)) =
     opened w @
     (if query_button inp \<and> connect env (opened w) (MongoClient (mongodb_uri env)) = None
      then [MongoClient (mongodb_uri env)] else [])"
proof -
  let ?mc = "MongoClient (mongodb_uri env)"
  let ?w = "w\<lparr>rendered := rendered w @ [Title ''Retail with SuperDuperDB'']\<rparr>"
  let ?rest = "\<lambda>collection. and_then (tab1 env inp db collection) (\<lambda>u.
      and_then (tab2 env inp db collection) (\<lambda>u. tab3 env db collection))"
  let ?find = "\<lambda>client. and_then (lift (json_loads env (query inp))) (\<lambda>flt.
      and_then (request env (Find_limit (MongoCollection client ''ecommerce'' ''multimodal'')
         flt (JObj [(''_id'', JNum 0)]) 5)) (\<lambda>res.
      and_then (lift (json_dumps env res)) (\<lambda>s.
      and_then (st (St_text (Str s)))
        (\<lambda>u. ok (MongoCollection client ''ecommerce'' ''multimodal'')))))"
  have rest: "quiet (?rest c)" for c
    by (intro quiet_and_then) simp_all
  have find: "quiet (and_then (?find c) ?rest)" for c
    by (intro quiet_and_then rest) simp_all
  have start: "tabs env inp db w = and_then (tab0 env inp (Collection ''multimodal'')) ?rest ?w"
    by (simp add: tabs_def st_then)
  show ?thesis
  proof (cases "query_button inp")
    case False
    with start have "tabs env inp db w = ?rest (Collection ''multimodal'') ?w"
      by (simp add: tab0_def)
    with rest [of "Collection ''multimodal''"] False show ?thesis
      by (simp add: quiet_def)
  next
    case True
    with start have run: "tabs env inp db w =
        and_then (open_connection env ?mc) (\<lambda>client. and_then (?find client) ?rest) ?w"
      by (simp add: tab0_def Let_def and_then_assoc)
    show ?thesis
    proof (cases "connect env (opened w) ?mc")
      case None
      then have "tabs env inp db w =
          and_then (?find ?mc) ?rest (?w\<lparr>opened := opened ?w @ [?mc]\<rparr>)"
        unfolding run by (subst open_connection_then) simp_all
      with find [of ?mc] True None show ?thesis
        by (simp add: quiet_def)
    next
      case (Some e)
      then have "tabs env inp db w = (Inl e, ?w)"
        unfolding run by (subst open_connection_refused [where e = e]) simp_all
      with True Some show ?thesis by simp
    qed
  qed
qed

lemma content_opened:
  assumes "\<And>history c. connect env history c = None"
  shows "opened (snd (content env inp w)) =
           opened w @
           (case cache_resource w of None \<Rightarrow> [superduper_connection env] | Some db \<Rightarrow> []) @
           (if query_button inp then [MongoClient (mongodb_uri env)] else [])"
proof (cases "cache_resource w")
  case (Some db)
  then show ?thesis
    by (simp add: content_def and_then_def init_db_cached tabs_opened assms)
next
  case None
  then show ?thesis
    by (simp add: content_def and_then_def init_db_fresh tabs_opened assms)
qed

lemma script_opened:
  assumes "session_state (snd (script env inp w)) ''authentication_status'' = Some (Some True)"
    and "\<And>history c. connect env history c = None"
  shows "opened (snd (script env inp w)) =
           opened w @
           (case cache_resource w of None \<Rightarrow> [superduper_connection env] | Some db \<Rightarrow> []) @
           (if query_button inp then [MongoClient (mongodb_uri env)] else [])"
proof -
  have "script env inp w = content env inp (gate inp w)"
    using assms(1) by (simp add: script_session_state script_authenticated)
  then show ?thesis
    using content_opened [of env inp "gate inp w"] assms(2) by simp
qed

lemma script_opens_nothing:
  assumes "session_state (snd (script env inp w)) ''authentication_status'' \<noteq> Some (Some True)"
  shows "opened (snd (script env inp w)) = opened w"
    and "issued (snd (script env inp w)) = issued w"
    and "cache_resource (snd (script env inp w)) = cache_resource w"
proof -
  have "script env inp w = (Inr (), gate inp w)"
    using assms by (simp add: script_session_state script_rejected)
  then show "opened (snd (script env inp w)) = opened w"
    and "issued (snd (script env inp w)) = issued w"
    and "cache_resource (snd (script env inp w)) = cache_resource w"
    by simp_all
qed

section \<open>The request of the raw query\<close>

lemma issued_request_first:
  assumes "\<And>x. keeps P (F x)" and "issued w = qs0"
  shows "\<exists>qs. issued (snd (and_then (request env q) F w)) = qs0 @ q # qs"
proof -
  have "\<exists>qs. issued (snd (and_then (request env q) F w)) = issued w @ q # qs \<and>
      (\<forall>q\<in>set qs. P q)"
    by (rule issued_request_then) (rule assms(1))
  with assms(2) show ?thesis by auto
qed

lemma tabs_raw_find:
  assumes "query_button inp"
    and "connect env (opened w) (MongoClient (mongodb_uri env)) = None"
    and "json_loads env (query inp) = Inr flt"
  shows "\<exists>qs. issued (snd (tabs env inp db w)) =
           issued w @ Find_limit (mongo_collection env) flt (JObj [(''_id'', JNum 0)]) 5 # qs"
proof -
  let ?mc = "MongoClient (mongodb_uri env)"
  let ?w = "w\<lparr>rendered := rendered w @ [Title ''Retail with SuperDuperDB''],
      opened := opened w @ [?mc]\<rparr>"
  let ?rest = "\<lambda>collection. and_then (tab1 env inp db collection) (\<lambda>u.
      and_then (tab2 env inp db collection) (\<lambda>u. tab3 env db collection))"
  let ?shown = "\<lambda>res. and_then (and_then (lift (json_dumps env res)) (\<lambda>s.
      and_then (st (St_text (Str s))) (\<lambda>u. ok (mongo_collection env)))) ?rest"
  have rest: "keeps (\<lambda>q. True) (?rest c)" for c
    by (intro keeps_and_then keeps_weaken [OF keeps_tab1] keeps_weaken [OF keeps_tab2]
        keeps_weaken [OF keeps_tab3]) simp_all
  have shown: "keeps (\<lambda>q. True) (?shown res)" for res
    by (intro keeps_and_then rest) simp_all
  have "tabs env inp db w =
      and_then (request env (Find_limit (mongo_collection env) flt (JObj [(''_id'', JNum 0)]) 5))
        ?shown ?w"
    using assms
    by (simp add: tabs_def tab0_def Let_def st_then and_then_assoc open_connection_then
        mongo_collection_def)
  moreover have "\<exists>qs. issued (snd (and_then
      (request env (Find_limit (mongo_collection env) flt (JObj [(''_id'', JNum 0)]) 5))
        ?shown ?w)) =
      issued w @ Find_limit (mongo_collection env) flt (JObj [(''_id'', JNum 0)]) 5 # qs"
    by (rule issued_request_first [OF shown]) simp
  ultimately show ?thesis
    by simp
qed

lemma tabs_malformed:
  assumes "query_button inp"
    and "connect env (opened w) (MongoClient (mongodb_uri env)) = None"
    and "json_loads env (query inp) = Inl e"
  shows "fst (tabs env inp db w) = Inl e" and "issued (snd (tabs env inp db w)) = issued w"
  using assms
  by (simp_all add: tabs_def tab0_def Let_def st_then and_then_assoc open_connection_then
      raise_def)

lemma content_tabs:
  assumes "\<And>history c. connect env history c = None"
  shows "\<exists>db v. content env inp w = tabs env inp db v \<and> issued v = issued w \<and>
           cache_resource v = Some db"
proof (cases "cache_resource w")
  case (Some db)
  then have "content env inp w = tabs env inp db w"
    by (simp add: content_def and_then_def init_db_cached)
  with Some show ?thesis by blast
next
  case None
  let ?c = "superduper_connection env"
  let ?v = "w\<lparr>opened := opened w @ [?c], cache_resource := Some ?c\<rparr>"
  from None have "content env inp w = tabs env inp ?c ?v"
    by (simp add: content_def and_then_def init_db_fresh assms)
  moreover have "issued ?v = issued w" "cache_resource ?v = Some ?c" by simp_all
  ultimately show ?thesis by blast
qed

lemma script_raw_find:
  assumes "session_state (snd (script env inp w)) ''authentication_status'' = Some (Some True)"
    and "query_button inp" and "\<And>history c. connect env history c = None"
  shows "json_loads env (query inp) = Inr flt \<Longrightarrow>
           \<exists>qs. issued (snd (script env inp w)) =
             issued w @ Find_limit (mongo_collection env) flt (JObj [(''_id'', JNum 0)]) 5 # qs"
    and "json_loads env (query inp) = Inl e \<Longrightarrow>
           fst (script env inp w) = Inl e \<and> issued (snd (script env inp w)) = issued w"
proof -
  have run: "script env inp w = content env inp (gate inp w)"
    using assms(1) by (simp add: script_session_state script_authenticated)
  from content_tabs [OF assms(3), of inp "gate inp w"]
  obtain db v where v: "content env inp (gate inp w) = tabs env inp db v" "issued v = issued w"
    by auto
  show "\<exists>qs. issued (snd (script env inp w)) =
      issued w @ Find_limit (mongo_collection env) flt (JObj [(''_id'', JNum 0)]) 5 # qs"
    if "json_loads env (query inp) = Inr flt"
    using tabs_raw_find [OF assms(2) assms(3) that, where w = v and db = db] run v by simp
  show "fst (script env inp w) = Inl e \<and> issued (snd (script env inp w)) = issued w"
    if "json_loads env (query inp) = Inl e"
    using tabs_malformed [OF assms(2) assms(3) that, where w = v and db = db] run v by simp
qed

section \<open>The sessions of a process\<close>

lemma world_of_fields [simp]:
  "session_state (world_of p s) = sessions p s"
  "cache_resource (world_of p s) = shared p"
  "opened (world_of p s) = connections p"
  "issued (world_of p s) = requests p"
  by (simp_all add: world_of_def)

lemma interaction_fields:
  "shared (interaction env s inp p) = cache_resource (snd (script env inp (world_of p s)))"
  "connections (interaction env s inp p) = opened (snd (script env inp (world_of p s)))"
  "requests (interaction env s inp p) = issued (snd (script env inp (world_of p s)))"
  by (simp_all add: interaction_def Let_def)

lemma interaction_session:
  "sessions (interaction env s inp p) s = session_state (snd (script env inp (world_of p s)))"
  by (simp add: interaction_def Let_def)

lemma interaction_other_session:
  "s' \<noteq> s \<Longrightarrow> sessions (interaction env s inp p) s' = sessions p s'"
  by (simp add: interaction_def Let_def)

lemma interaction_inv:
  assumes "session_inv (world_of p s0)"
  shows "session_inv (world_of (interaction env s inp p) s0)"
proof -
  from assms have "session_inv (world_of p s)"
    by (auto simp: session_inv_def split: request.splits)
  then have "session_inv (snd (script env inp (world_of p s)))"
    by (rule script_inv)
  then show ?thesis
    by (auto simp: session_inv_def interaction_fields split: request.splits)
qed

lemma serve_inv:
  "session_inv (world_of p s0) \<Longrightarrow> session_inv (world_of (serve env acts p) s0)"
  by (induction acts arbitrary: p) (simp_all add: interaction_inv)

lemma process_start_inv: "session_inv (world_of process_start s0)"
  by (simp add: session_inv_def world_of_def process_start_def)

lemma interaction_status:
  "sessions (interaction env s inp p) s ''authentication_status'' =
     Some (if login_button inp
           then Some (login_condition (input_username inp) (input_password inp))
           else (case sessions p s ''authentication_status'' of
                   None \<Rightarrow> None | Some v \<Rightarrow> v))"
  by (simp add: interaction_session script_session_state gate_status)

lemma serve_keeps_decided:
  "sessions p s ''authentication_status'' = Some (Some b) \<Longrightarrow>
   \<exists>b'. sessions (serve env acts p) s ''authentication_status'' = Some (Some b')"
proof (induction acts arbitrary: p b)
  case Nil
  then show ?case by simp
next
  case (Cons a acts)
  have "\<exists>b'. sessions (interaction env (fst a) (snd a) p) s ''authentication_status'' =
      Some (Some b')"
  proof (cases "fst a = s")
    case True
    with Cons.prems show ?thesis by (simp add: interaction_status)
  next
    case False
    with Cons.prems show ?thesis by (simp add: interaction_other_session)
  qed
  then show ?case
    using Cons.IH by auto
qed

section \<open>The digests of a run\<close>



section \<open>The login handler and the session: claims\<close>

text \<open>
  C2. A run in which the login button was pressed leaves \<open>authentication_status\<close>
  equal to the value of the login condition, whatever it held before. When the
  condition is false the run returns normally: it raises nothing, and its only effects
  are the status \<open>False\<close> and the error message on the fresh page.
\<close>

theorem login_overwrites_authentication_status:
  assumes "login_button inp"
  shows "session_state (snd (script env inp w)) ''authentication_status'' =
           Some (Some (login_condition (input_username inp) (input_password inp)))
         \<and> (\<not> login_condition (input_username inp) (input_password inp) \<longrightarrow>
              script env inp w =
                (Inr (),
                 w\<lparr>session_state := (session_state w)(''authentication_status'' \<mapsto> Some False),
                   rendered := [Sidebar_error ''Incorrect Username/Password'']\<rparr>))"
proof -
  let ?b = "login_condition (input_username inp) (input_password inp)"
  have status: "session_state (gate inp w) ''authentication_status'' = Some (Some ?b)"
    using assms by (simp add: gate_status)
  have "script env inp w = (Inr (), gate inp w)" if "\<not> ?b"
    using that status by (simp add: script_rejected)
  moreover have "gate inp w =
      w\<lparr>session_state := (session_state w)(''authentication_status'' \<mapsto> Some False),
        rendered := [Sidebar_error ''Incorrect Username/Password'']\<rparr>" if "\<not> ?b"
    using that assms
    by (simp add: gate_def Let_def login_def init_session_state_def split: option.splits)
  ultimately show ?thesis
    using status by (simp add: script_session_state)
qed

theorem login_overwrites_authentication_status_witness:
  "login_button guest_login
   \<and> session_state (snd (script demo_env guest_login authenticated_world))
       ''authentication_status'' = Some (Some False)
   \<and> fst (script demo_env guest_login authenticated_world) = Inr ()"
  using login_overwrites_authentication_status [of guest_login demo_env authenticated_world]
  by (simp add: guest_login_def no_input_def login_other_user)

text \<open>
  C7, as the claim states it, fails: \<open>authentication_status\<close> is not one value of
  the process. After a login as \<open>admin\<close> in one session, a run in a second session
  of the same process finds no status and sets it to \<open>None\<close>, while the first
  session is authenticated.
\<close>

theorem second_session_starts_unknown:
  "sessions (serve demo_env [(0, admin_login), (1, no_input)] process_start) 0
      ''authentication_status'' = Some (Some True)
   \<and> sessions (serve demo_env [(0, admin_login), (1, no_input)] process_start) 1
      ''authentication_status'' = Some None"
  by (simp add: interaction_status interaction_other_session process_start_def admin_login_def
      no_input_def login_admin_password)

text \<open>
  C7, amended. \<open>authentication_status\<close> is kept per session and has three values:
  \<open>None\<close>, \<open>True\<close>, \<open>False\<close>. At process start no session has the key. A run in a
  session sets that session's status to the value of the login condition when the login
  button was pressed; otherwise it sets it to \<open>None\<close> when the key is absent and
  leaves a value that is there as it is. A run leaves the status of every other session
  unchanged. Once the status of a session is \<open>True\<close> or \<open>False\<close>, no sequence of
  runs, in whatever sessions, makes it \<open>None\<close> again.
\<close>

theorem authentication_status_per_session:
  "sessions process_start s ''authentication_status'' = None
   \<and> sessions (interaction env s inp p) s ''authentication_status'' =
       Some (if login_button inp
             then Some (login_condition (input_username inp) (input_password inp))
             else (case sessions p s ''authentication_status'' of
                     None \<Rightarrow> None | Some v \<Rightarrow> v))
   \<and> (s' \<noteq> s \<longrightarrow> sessions (interaction env s inp p) s' = sessions p s')
   \<and> (sessions p s ''authentication_status'' = Some (Some b) \<longrightarrow>
        (\<exists>b'. sessions (serve env acts p) s ''authentication_status'' = Some (Some b')))"
  using serve_keeps_decided [of p s b env acts] interaction_status [of env s inp p]
  by (simp add: interaction_other_session process_start_def)

theorem authentication_status_per_session_witness:
  "sessions (interaction demo_env 0 no_input process_start) 0 ''authentication_status'' =
     Some None
   \<and> (1::nat) \<noteq> 0
   \<and> sessions (interaction demo_env 0 admin_login process_start) 1 = sessions process_start 1
   \<and> sessions (interaction demo_env 0 admin_login process_start) 0
        ''authentication_status'' = Some (Some True)
   \<and> (\<exists>b'. sessions (serve demo_env [(1, guest_login), (0, no_input), (1, no_input)]
               (interaction demo_env 0 admin_login process_start)) 0
          ''authentication_status'' = Some (Some b'))
   \<and> sessions (serve demo_env [(1, guest_login), (0, no_input), (0, guest_login)]
         (interaction demo_env 0 admin_login process_start)) 0
        ''authentication_status'' = Some (Some False)"
  using authentication_status_per_session
      [where env = demo_env and s = 0 and s' = 1 and inp = admin_login and p = process_start]
    authentication_status_per_session
      [where env = demo_env and s = 0 and inp = no_input
         and p = "interaction demo_env 0 admin_login process_start" and b = True
         and acts = "[(1, guest_login), (0, no_input), (1, no_input)]"]
  by (simp add: interaction_status interaction_other_session process_start_def admin_login_def
      guest_login_def no_input_def login_admin_password login_other_user)



section \<open>Evaluating a run\<close>

lemmas run_defs = script_def gate_def content_def tabs_def tab0_def tab1_def tab2_def tab3_def
  and_then_def ok_def raise_def lift_def st_def request_def open_connection_def init_db_def
  getitem_def search_def text_2_image_search_def text_2_text_search_def image_search_def
  random_product_def init_session_state_def login_def unpack_def pil_image_def
  superduper_connection_def mongodb_uri_def mongo_collection_def Let_def

lemmas demo_defs = demo_env_def down_env_def bare_env_def no_input_def admin_login_def
  guest_login_def raw_query_def malformed_query_def initial_world_def authenticated_world_def
  shoe_def hat_def sock_def

section \<open>The dispatcher: claims\<close>

text \<open>
  C8. Whenever a request that a run issues is answered by an exception, that request
  is the last one of the run and the run ends with exactly that exception: nothing is
  caught, translated, retried or replaced by a partial result. Likewise, in an
  authenticated run with the query button pressed and the connections open, a raw query
  that \<open>json.loads\<close> rejects ends the run with the parser's exception before any
  request is issued.
\<close>

theorem failures_propagate:
  "(\<exists>qs. issued (snd (script env inp w)) = issued w @ qs \<and>
      (\<forall>qs1 q qs2 e. qs = qs1 @ q # qs2 \<and> respond env (issued w @ qs1) q = Inl e
         \<longrightarrow> qs2 = [] \<and> fst (script env inp w) = Inl e))
   \<and> (session_state (snd (script env inp w)) ''authentication_status'' = Some (Some True)
        \<and> query_button inp \<and> (\<forall>history c. connect env history c = None)
        \<and> json_loads env (query inp) = Inl e' \<longrightarrow>
      fst (script env inp w) = Inl e' \<and> issued (snd (script env inp w)) = issued w)"
proof -
  have "fst (script env inp w) = Inl e' \<and> issued (snd (script env inp w)) = issued w"
    if auth: "session_state (snd (script env inp w)) ''authentication_status'' = Some (Some True)"
      and button: "query_button inp" and conn: "\<forall>history c. connect env history c = None"
      and bad: "json_loads env (query inp) = Inl e'"
  proof -
    have "script env inp w = content env inp (gate inp w)"
      using auth by (simp add: script_session_state script_authenticated)
    moreover have "fst (content env inp v) = Inl e' \<and> issued (snd (content env inp v)) = issued v"
      for v
      using button conn bad
      by (simp add: content_def tabs_def tab0_def and_then_def init_db_def
          open_connection_def st_def lift_def raise_def Let_def split: option.splits)
    ultimately show ?thesis by simp
  qed
  moreover from strict_script [of env inp]
  have "\<exists>qs. issued (snd (script env inp w)) = issued w @ qs \<and>
      (\<forall>qs1 q qs2 e. qs = qs1 @ q # qs2 \<and> respond env (issued w @ qs1) q = Inl e
         \<longrightarrow> qs2 = [] \<and> fst (script env inp w) = Inl e)"
    unfolding strict_def by blast
  ultimately show ?thesis by blast
qed

theorem failures_propagate_witness:
  "respond down_env (issued authenticated_world @ [])
      (Execute (superduper_connection down_env)
         (Aggregate (Collection ''multimodal'') sample_pipeline))
     = Inl (Raised ''ServerSelectionTimeoutError'')
   \<and> issued (snd (script down_env no_input authenticated_world)) =
       issued authenticated_world @ [] @
         Execute (superduper_connection down_env)
           (Aggregate (Collection ''multimodal'') sample_pipeline) # []
   \<and> fst (script down_env no_input authenticated_world) =
       Inl (Raised ''ServerSelectionTimeoutError'')
   \<and> session_state (snd (script demo_env malformed_query authenticated_world))
       ''authentication_status'' = Some (Some True)
   \<and> query_button malformed_query \<and> (\<forall>history c. connect demo_env history c = None)
   \<and> json_loads demo_env (query malformed_query) = Inl (Raised ''JSONDecodeError'')
   \<and> fst (script demo_env malformed_query authenticated_world) = Inl (Raised ''JSONDecodeError'')
   \<and> issued (snd (script demo_env malformed_query authenticated_world)) =
       issued authenticated_world"
  using failures_propagate [of down_env no_input authenticated_world]
    failures_propagate [of demo_env malformed_query authenticated_world
      "Raised ''JSONDecodeError''"]
  by (simp add: run_defs demo_defs)

text \<open>
  C3. A text-to-image search issues one request with \<open>n = 3\<close>, a text-to-text search
  one request with \<open>n = 10\<close>. The tab "Data" issues at most one request, a \<open>find\<close>
  on the pymongo collection with the projection \<open>{'_id': 0}\<close> and \<open>limit(5)\<close>;
  as MongoDB answers it, that request returns at most 5 documents, none of which has
  the field \<open>_id\<close>, whatever the collection holds.
\<close>

theorem result_count_bounds:
  "issued (snd (text_2_image_search env db c t w)) =
     issued w @ [Execute db (Like_find c [(''search'', t)] ''my-index'' 3 (JObj []))]
   \<and> issued (snd (text_2_text_search env db c t w)) =
     issued w @ [Execute db (Like_find c [(''title'', t)] ''text-index'' 10 (JObj []))]
   \<and> (\<exists>qs. issued (snd (tab0 env inp c w)) = issued w @ qs \<and> length qs \<le> 1 \<and>
         (\<forall>q\<in>set qs. \<exists>flt. q =
            Find_limit (mongo_collection env) flt (JObj [(''_id'', JNum 0)]) 5))
   \<and> length (find_limit matches docs flt (JObj [(''_id'', JNum 0)]) 5) \<le> 5
   \<and> (\<forall>d\<in>set (find_limit matches docs flt (JObj [(''_id'', JNum 0)]) 5).
         map_of d ''_id'' = None)"
proof -
  have "\<exists>qs. issued (snd (tab0 env inp c w)) = issued w @ qs \<and> length qs \<le> 1 \<and>
         (\<forall>q\<in>set qs. \<exists>flt. q =
            Find_limit (mongo_collection env) flt (JObj [(''_id'', JNum 0)]) 5)"
    using tab0_requests [of env inp c w]
  proof
    assume "issued (snd (tab0 env inp c w)) = issued w"
    then show ?thesis by (intro exI [of _ "[]"]) simp
  next
    assume "\<exists>flt. issued (snd (tab0 env inp c w)) =
      issued w @ [Find_limit (mongo_collection env) flt (JObj [(''_id'', JNum 0)]) 5]"
    then obtain flt where "issued (snd (tab0 env inp c w)) =
      issued w @ [Find_limit (mongo_collection env) flt (JObj [(''_id'', JNum 0)]) 5]" ..
    then show ?thesis
      by (intro exI [of _ "[Find_limit (mongo_collection env) flt (JObj [(''_id'', JNum 0)]) 5]"])
         simp
  qed
  moreover have "map_of d ''_id'' = None"
    if "d \<in> set (find_limit matches docs flt (JObj [(''_id'', JNum 0)]) 5)" for d
    using that by (rule find_limit_excluded [rotated]) simp
  ultimately show ?thesis
    by (simp add: text_2_image_search_def text_2_text_search_def search_def request_def
        length_find_limit)
qed

theorem result_count_bounds_witness:
  "issued (snd (tab0 demo_env raw_query (Collection ''multimodal'') authenticated_world)) =
     [Find_limit (mongo_collection demo_env) (JObj []) (JObj [(''_id'', JNum 0)]) 5]
   \<and> length seven_socks = 7
   \<and> length (find_limit (\<lambda>flt d. True) seven_socks (JObj []) (JObj [(''_id'', JNum 0)]) 5) = 5
   \<and> set (find_limit (\<lambda>flt d. True) seven_socks (JObj []) (JObj [(''_id'', JNum 0)]) 5) =
       {[(''title'', Str ''Sock'')]}
   \<and> map_of [(''title'', Str ''Sock'')] ''_id'' = None"
  using result_count_bounds
    [where matches = "\<lambda>flt d. True" and docs = seven_socks and flt = "JObj []"
       and env = demo_env and inp = raw_query and c = "Collection ''multimodal''"
       and w = authenticated_world]
  by (simp add: run_defs demo_defs seven_socks_def find_limit_def project_def)

text \<open>
  C10. In a run with the query button pressed, every \<open>db.execute\<close> request of the
  tabs is built from the pymongo collection, not from \<open>Collection('multimodal')\<close>;
  when the raw query goes through and the two search tabs are idle, the request that
  follows it is the sampling of \<open>random_product\<close> on the pymongo collection. In a
  run without the query button they are built from \<open>Collection('multimodal')\<close>.
\<close>

theorem raw_query_rebinds_collection:
  "(query_button inp \<longrightarrow>
      (\<exists>qs. issued (snd (tabs env inp db w)) = issued w @ qs \<and>
         (\<forall>q\<in>set qs. \<forall>d qu. q = Execute d qu \<longrightarrow>
            d = db \<and> query_coll qu = mongo_collection env)))
   \<and> (query_button inp \<and> \<not> search_button inp \<and> uploaded_file inp = None
        \<and> connect env (opened w) (MongoClient (mongodb_uri env)) = None
        \<and> json_loads env (query inp) = Inr flt
        \<and> respond env (issued w)
             (Find_limit (mongo_collection env) flt (JObj [(''_id'', JNum 0)]) 5) = Inr res
        \<and> json_dumps env res = Inr s \<longrightarrow>
      (\<exists>qs. issued (snd (tabs env inp db w)) =
         issued w @ Find_limit (mongo_collection env) flt (JObj [(''_id'', JNum 0)]) 5
           # Execute db (Aggregate (mongo_collection env) sample_pipeline) # qs))
   \<and> (\<not> query_button inp \<longrightarrow>
      (\<exists>qs. issued (snd (tabs env inp db w)) = issued w @ qs \<and>
         (\<forall>q\<in>set qs. \<forall>d qu. q = Execute d qu \<longrightarrow>
            d = db \<and> query_coll qu = Collection ''multimodal'')))"
proof -
  from keeps_issued [OF keeps_tabs, of env inp db w]
  obtain qs where qs: "issued (snd (tabs env inp db w)) = issued w @ qs"
    "\<forall>q\<in>set qs. tabs_request env inp db q"
    by blast
  have on: "d = db \<and> query_coll qu = rebound env inp" if "Execute d qu \<in> set qs" for d qu
    using qs(2) that by (fastforce simp: tabs_request_def)
  have first: "\<exists>qs. issued (snd (tabs env inp db w)) = issued w @ qs \<and>
         (\<forall>q\<in>set qs. \<forall>d qu. q = Execute d qu \<longrightarrow> d = db \<and> query_coll qu = rebound env inp)"
    using qs(1) on by blast
  have second: "\<exists>qs. issued (snd (tabs env inp db w)) =
         issued w @ Find_limit (mongo_collection env) flt (JObj [(''_id'', JNum 0)]) 5
           # Execute db (Aggregate (mongo_collection env) sample_pipeline) # qs"
    if "query_button inp" "\<not> search_button inp" "uploaded_file inp = None"
      "connect env (opened w) (MongoClient (mongodb_uri env)) = None"
      "json_loads env (query inp) = Inr flt"
      "respond env (issued w)
         (Find_limit (mongo_collection env) flt (JObj [(''_id'', JNum 0)]) 5) = Inr res"
      "json_dumps env res = Inr s"
  proof -
    let ?q = "Find_limit (mongo_collection env) flt (JObj [(''_id'', JNum 0)]) 5"
    define w1 where "w1 = w\<lparr>rendered := rendered w @ [Title ''Retail with SuperDuperDB''],
        opened := opened w @ [MongoClient (mongodb_uri env)],
        issued := issued w @ [?q],
        rendered := rendered w @ [Title ''Retail with SuperDuperDB'', St_text (Str s)]\<rparr>"
    have "tabs env inp db w = tab3 env db (mongo_collection env) w1"
      using that
      by (simp add: tabs_def tab0_def tab1_def tab2_def and_then_def ok_def lift_def st_def
          request_def open_connection_def mongo_collection_def Let_def w1_def)
    moreover have "issued w1 = issued w @ [?q]"
      by (simp add: w1_def)
    ultimately show ?thesis
      using tab3_first_request [of env db "mongo_collection env" w1] by auto
  qed
  have c1: "query_button inp \<longrightarrow>
      (\<exists>qs. issued (snd (tabs env inp db w)) = issued w @ qs \<and>
         (\<forall>q\<in>set qs. \<forall>d qu. q = Execute d qu \<longrightarrow>
            d = db \<and> query_coll qu = mongo_collection env))"
    using first by (auto simp: rebound_def)
  have c3: "\<not> query_button inp \<longrightarrow>
      (\<exists>qs. issued (snd (tabs env inp db w)) = issued w @ qs \<and>
         (\<forall>q\<in>set qs. \<forall>d qu. q = Execute d qu \<longrightarrow>
            d = db \<and> query_coll qu = Collection ''multimodal''))"
    using first by (auto simp: rebound_def)
  show ?thesis
    using second by (intro conjI c1 c3) blast
qed

theorem raw_query_rebinds_collection_witness:
  "query_button raw_query \<and> \<not> search_button raw_query \<and> uploaded_file raw_query = None
   \<and> connect demo_env (opened authenticated_world) (MongoClient (mongodb_uri demo_env)) = None
   \<and> json_loads demo_env (query raw_query) = Inr (JObj [])
   \<and> respond demo_env (issued authenticated_world)
        (Find_limit (mongo_collection demo_env) (JObj []) (JObj [(''_id'', JNum 0)]) 5) = Inr []
   \<and> json_dumps demo_env [] = Inr ''[]''
   \<and> issued (snd (tabs demo_env raw_query (superduper_connection demo_env)
        authenticated_world)) =
      [Find_limit (mongo_collection demo_env) (JObj []) (JObj [(''_id'', JNum 0)]) 5,
       Execute (superduper_connection demo_env)
         (Aggregate (mongo_collection demo_env) sample_pipeline),
       Execute (superduper_connection demo_env)
         (Like_find (mongo_collection demo_env) [(''img'', pil_image (PIL_Image ''shoe.png''))]
            ''my-index'' 3 (JObj [])),
       Execute (superduper_connection demo_env)
         (Like_find (mongo_collection demo_env) [(''title'', Str ''Hat'')]
            ''text-index'' 10 (JObj []))]
   \<and> \<not> query_button no_input
   \<and> issued (snd (tabs demo_env no_input (superduper_connection demo_env)
        authenticated_world)) =
      [Execute (superduper_connection demo_env)
         (Aggregate (Collection ''multimodal'') sample_pipeline),
       Execute (superduper_connection demo_env)
         (Like_find (Collection ''multimodal'') [(''img'', pil_image (PIL_Image ''shoe.png''))]
            ''my-index'' 3 (JObj [])),
       Execute (superduper_connection demo_env)
         (Like_find (Collection ''multimodal'') [(''title'', Str ''Hat'')]
            ''text-index'' 10 (JObj []))]"
  using raw_query_rebinds_collection
    [where env = demo_env and inp = raw_query and db = "superduper_connection demo_env"
       and w = authenticated_world and flt = "JObj []" and res = "[]" and s = "''[]''"]
    raw_query_rebinds_collection
    [where env = demo_env and inp = no_input and db = "superduper_connection demo_env"
       and w = authenticated_world]
  by (simp add: run_defs demo_defs)

text \<open>
  C5, as the claim states it, fails: after a login and one raw query two connections
  have been opened, the cached \<open>superduper\<close> handle and a \<open>pymongo.MongoClient\<close>
  that the tab "Data" creates.
\<close>

theorem raw_query_opens_second_connection:
  "opened (runs demo_env [admin_login, raw_query] initial_world) =
     [Superduper ''mongodb://localhost:27017/ecommerce'' ''filesystem://./data/artifacts/''
        ''./data/downloads'',
      MongoClient ''mongodb://localhost:27017/ecommerce'']"
  by (simp add: run_defs demo_defs login_admin_password)

text \<open>
  C5, amended. The \<open>superduper\<close> handle of \<open>_init\<close> is a lazily initialized
  resource of the process: over all sessions it is created at most once, and every
  \<open>db.execute\<close> request of the process goes through it. A run that does not reach
  the authenticated part opens no connection. When connecting succeeds, an
  authenticated run opens the handle if the process has none yet and, if the query
  button was pressed, exactly one more connection, a new \<open>pymongo.MongoClient\<close>:
  the raw structured query does not reuse the handle. Its \<open>find\<close> is sent on the
  collection of that client when \<open>json.loads\<close> accepts the query; when it rejects
  the query the client has been created and no request is sent.
\<close>

theorem superduper_handle_created_once:
  "length (filter is_superduper (connections (serve env acts process_start))) \<le> 1
   \<and> (\<forall>q\<in>set (requests (serve env acts process_start)). \<forall>d qu. q = Execute d qu \<longrightarrow>
         filter is_superduper (connections (serve env acts process_start)) = [d])
   \<and> (sessions (interaction env s inp p) s ''authentication_status'' \<noteq> Some (Some True) \<longrightarrow>
         connections (interaction env s inp p) = connections p)
   \<and> (sessions (interaction env s inp p) s ''authentication_status'' = Some (Some True)
        \<and> (\<forall>history c. connect env history c = None) \<longrightarrow>
         connections (interaction env s inp p) =
           connections p @
           (case shared p of None \<Rightarrow> [superduper_connection env] | Some db \<Rightarrow> []) @
           (if query_button inp then [MongoClient (mongodb_uri env)] else []))
   \<and> (sessions (interaction env s inp p) s ''authentication_status'' = Some (Some True)
        \<and> (\<forall>history c. connect env history c = None) \<and> query_button inp
        \<and> json_loads env (query inp) = Inr flt \<longrightarrow>
         (\<exists>qs. requests (interaction env s inp p) =
            requests p @ Find_limit (mongo_collection env) flt (JObj [(''_id'', JNum 0)]) 5 # qs))
   \<and> (sessions (interaction env s inp p) s ''authentication_status'' = Some (Some True)
        \<and> (\<forall>history c. connect env history c = None) \<and> query_button inp
        \<and> json_loads env (query inp) = Inl e \<longrightarrow>
         requests (interaction env s inp p) = requests p)"
proof -
  let ?p = "serve env acts process_start"
  let ?w = "world_of p s"
  have inv: "session_inv (world_of ?p 0)"
    by (rule serve_inv [OF process_start_inv])
  then have once: "length (filter is_superduper (connections ?p)) \<le> 1"
    by (simp add: session_inv_def split: option.splits)
  have through: "filter is_superduper (connections ?p) = [d]"
    if "Execute d qu \<in> set (requests ?p)" for d qu
    using inv that by (fastforce simp: session_inv_def)
  have idle: "connections (interaction env s inp p) = connections p"
    if "sessions (interaction env s inp p) s ''authentication_status'' \<noteq> Some (Some True)"
    using that script_opens_nothing(1) [of env inp ?w]
    by (simp add: interaction_fields interaction_session)
  have opens: "connections (interaction env s inp p) =
      connections p @
      (case shared p of None \<Rightarrow> [superduper_connection env] | Some db \<Rightarrow> []) @
      (if query_button inp then [MongoClient (mongodb_uri env)] else [])"
    if "sessions (interaction env s inp p) s ''authentication_status'' = Some (Some True)"
      and "\<forall>history c. connect env history c = None"
    using that script_opened [of env inp ?w]
    by (simp add: interaction_fields interaction_session)
  have sent: "\<exists>qs. requests (interaction env s inp p) =
      requests p @ Find_limit (mongo_collection env) flt (JObj [(''_id'', JNum 0)]) 5 # qs"
    if "sessions (interaction env s inp p) s ''authentication_status'' = Some (Some True)"
      and "\<forall>history c. connect env history c = None" and "query_button inp"
      and "json_loads env (query inp) = Inr flt"
    using that script_raw_find(1) [of env inp ?w flt]
    by (simp add: interaction_fields interaction_session)
  have unsent: "requests (interaction env s inp p) = requests p"
    if "sessions (interaction env s inp p) s ''authentication_status'' = Some (Some True)"
      and "\<forall>history c. connect env history c = None" and "query_button inp"
      and "json_loads env (query inp) = Inl e"
    using that script_raw_find(2) [of env inp ?w e]
    by (simp add: interaction_fields interaction_session)
  show ?thesis
    using once through idle opens sent unsent by blast
qed

theorem superduper_handle_created_once_witness:
  "connections (serve demo_env [(0, admin_login), (1, admin_login), (1, raw_query), (0, raw_query)]
        process_start) =
     [superduper_connection demo_env, MongoClient (mongodb_uri demo_env),
      MongoClient (mongodb_uri demo_env)]
   \<and> Execute (superduper_connection demo_env)
        (Aggregate (Collection ''multimodal'') sample_pipeline)
      \<in> set (requests (serve demo_env
           [(0, admin_login), (1, admin_login), (1, raw_query), (0, raw_query)] process_start))
   \<and> filter is_superduper (connections (serve demo_env
        [(0, admin_login), (1, admin_login), (1, raw_query), (0, raw_query)] process_start)) =
      [superduper_connection demo_env]
   \<and> sessions (interaction demo_env 1 no_input process_start) 1 ''authentication_status'' =
        Some None
   \<and> connections (interaction demo_env 1 no_input process_start) = []
   \<and> (\<forall>history c. connect demo_env history c = None)
   \<and> sessions (interaction demo_env 1 (admin_login\<lparr>query_button := True\<rparr>)
        (interaction demo_env 0 admin_login process_start)) 1 ''authentication_status'' =
        Some (Some True)
   \<and> shared (interaction demo_env 0 admin_login process_start) =
        Some (superduper_connection demo_env)
   \<and> connections (interaction demo_env 1 (admin_login\<lparr>query_button := True\<rparr>)
        (interaction demo_env 0 admin_login process_start)) =
        [superduper_connection demo_env, MongoClient (mongodb_uri demo_env)]
   \<and> json_loads demo_env (query (admin_login\<lparr>query_button := True\<rparr>)) = Inr (JObj [])
   \<and> take 4 (requests (interaction demo_env 1 (admin_login\<lparr>query_button := True\<rparr>)
        (interaction demo_env 0 admin_login process_start))) =
        requests (interaction demo_env 0 admin_login process_start) @
        [Find_limit (mongo_collection demo_env) (JObj []) (JObj [(''_id'', JNum 0)]) 5]
   \<and> sessions (interaction demo_env 0 malformed_query
        (interaction demo_env 0 admin_login process_start)) 0 ''authentication_status'' =
        Some (Some True)
   \<and> json_loads demo_env (query malformed_query) = Inl (Raised ''JSONDecodeError'')
   \<and> connections (interaction demo_env 0 malformed_query
        (interaction demo_env 0 admin_login process_start)) =
        [superduper_connection demo_env, MongoClient (mongodb_uri demo_env)]
   \<and> requests (interaction demo_env 0 malformed_query
        (interaction demo_env 0 admin_login process_start)) =
        requests (interaction demo_env 0 admin_login process_start)"
  using superduper_handle_created_once
      [where env = demo_env
         and acts = "[(0, admin_login), (1, admin_login), (1, raw_query), (0, raw_query)]"
         and s = 1 and inp = no_input and p = process_start]
    superduper_handle_created_once
      [where env = demo_env and acts = "[]" and s = 1
         and inp = "admin_login\<lparr>query_button := True\<rparr>"
         and p = "interaction demo_env 0 admin_login process_start" and flt = "JObj []"]
    superduper_handle_created_once
      [where env = demo_env and acts = "[]" and s = 0 and inp = malformed_query
         and p = "interaction demo_env 0 admin_login process_start"
         and e = "Raised ''JSONDecodeError''"]
  by (simp add: interaction_def world_of_def process_start_def run_defs demo_defs
      login_admin_password is_superduper_def)

text \<open>
  C6, as the claim states it, fails: the title search of the tab "Browse" returns a
  document that has a title and no image, the run ends normally, and the document is
  on the page as its title.
\<close>

theorem document_without_image_is_rendered:
  "respond bare_env
      [Execute (superduper_connection bare_env)
         (Aggregate (Collection ''multimodal'') sample_pipeline),
       Execute (superduper_connection bare_env)
         (Like_find (Collection ''multimodal'') [(''img'', pil_image (PIL_Image ''shoe.png''))]
            ''my-index'' 3 (JObj []))]
      (Execute (superduper_connection bare_env)
         (Like_find (Collection ''multimodal'') [(''title'', Str ''Shoe'')]
            ''text-index'' 10 (JObj []))) = Inr [sock]
   \<and> map_of sock ''img'' = None
   \<and> script bare_env no_input authenticated_world =
       (Inr (),
        authenticated_world
          \<lparr>cache_resource := Some (superduper_connection bare_env),
           opened := [superduper_connection bare_env],
           issued :=
             [Execute (superduper_connection bare_env)
                (Aggregate (Collection ''multimodal'') sample_pipeline),
              Execute (superduper_connection bare_env)
                (Like_find (Collection ''multimodal'')
                   [(''img'', pil_image (PIL_Image ''shoe.png''))] ''my-index'' 3 (JObj [])),
              Execute (superduper_connection bare_env)
                (Like_find (Collection ''multimodal'') [(''title'', Str ''Shoe'')]
                   ''text-index'' 10 (JObj []))],
           rendered :=
             [Title ''Retail with SuperDuperDB'',
              St_image (PIL_Image ''shoe.png'') (Some (Str ''Shoe'')),
              Markdown ''### Based on image'',
              St_image (PIL_Image ''shoe.png'') None,
              Markdown ''### Based on title'',
              St_text (Str ''Sock'')]\<rparr>)"
  by (simp add: run_defs demo_defs)

text \<open>
  C6, amended. No dispatch operation checks the documents it returns: each search hands
  on the answer of the backend as it is, \<open>random_product\<close> its first document, and
  the raw query passes the documents of the answer to \<open>json.dumps\<close> unread. A
  document fails loudly, with the \<open>KeyError\<close> of the missing key, only where the code
  subscripts it. The rendering loop of the tabs "Text Search" and "Image Search"
  subscripts every document with \<open>img\<close> and then \<open>title\<close> and ends at the first
  document that lacks one. In the tab "Browse" the sampled document is subscripted with
  \<open>img\<close> and \<open>title\<close>; the loop over the image results subscripts each document
  with \<open>img\<close> only; the statement that starts the title search subscripts with
  \<open>title\<close> the document that \<open>r\<close> holds at that point; and the loop over the title
  results subscripts each document with \<open>title\<close> only, rendering the titles up to
  the first document without one. Whether a run raises depends on the presence of these
  keys alone: no value is checked for being empty.
\<close>

theorem documents_are_checked_where_subscripted:
  "text_2_image_search env db c t w =
     (respond env (issued w) (Execute db (Like_find c [(''search'', t)] ''my-index'' 3 (JObj []))),
      w\<lparr>issued := issued w @
         [Execute db (Like_find c [(''search'', t)] ''my-index'' 3 (JObj []))]\<rparr>)
   \<and> text_2_text_search env db c t w =
     (respond env (issued w) (Execute db (Like_find c [(''title'', t)] ''text-index'' 10 (JObj []))),
      w\<lparr>issued := issued w @
         [Execute db (Like_find c [(''title'', t)] ''text-index'' 10 (JObj []))]\<rparr>)
   \<and> image_search env db c t w =
     (respond env (issued w)
        (Execute db (Like_find c [(''img'', pil_image t)] ''my-index'' 3 (JObj []))),
      w\<lparr>issued := issued w @
         [Execute db (Like_find c [(''img'', pil_image t)] ''my-index'' 3 (JObj []))]\<rparr>)
   \<and> fst (random_product env db c w) =
     (case respond env (issued w) (Execute db (Aggregate c sample_pipeline)) of
        Inl e \<Rightarrow> Inl e
      | Inr [] \<Rightarrow> Inl StopIteration
      | Inr (r # rs) \<Rightarrow> Inr r)
   \<and> fst (tab0 env inp c w) =
     (if query_button inp then
        (case connect env (opened w) (MongoClient (mongodb_uri env)) of
           Some e \<Rightarrow> Inl e
         | None \<Rightarrow>
        (case json_loads env (query inp) of
           Inl e \<Rightarrow> Inl e
         | Inr flt \<Rightarrow>
        (case respond env (issued w)
           (Find_limit (mongo_collection env) flt (JObj [(''_id'', JNum 0)]) 5) of
           Inl e \<Rightarrow> Inl e
         | Inr res \<Rightarrow>
        (case json_dumps env res of
           Inl e \<Rightarrow> Inl e
         | Inr s \<Rightarrow> Inr (mongo_collection env)))))
      else Inr c)
   \<and> fst (show_results rs w) =
     (case find (\<lambda>r. map_of r ''img'' = None \<or> map_of r ''title'' = None) rs of
        None \<Rightarrow> Inr ()
      | Some r \<Rightarrow> Inl (KeyError (if map_of r ''img'' = None then ''img'' else ''title'')))
   \<and> show_images rs r0 w =
     (case find (\<lambda>r. map_of r ''img'' = None) rs of
        None \<Rightarrow> Inr (last (r0 # rs))
      | Some r \<Rightarrow> Inl (KeyError ''img''),
      w\<lparr>rendered := rendered w @
         map (\<lambda>img. St_image img None) (List.map_filter (\<lambda>r. map_of r ''img'')
           (takeWhile (\<lambda>r. map_of r ''img'' \<noteq> None) rs))\<rparr>)
   \<and> show_titles rs w =
     (case find (\<lambda>r. map_of r ''title'' = None) rs of
        None \<Rightarrow> Inr ()
      | Some r \<Rightarrow> Inl (KeyError ''title''),
      w\<lparr>rendered := rendered w @
         map St_text (List.map_filter (\<lambda>r. map_of r ''title'')
           (takeWhile (\<lambda>r. map_of r ''title'' \<noteq> None) rs))\<rparr>)
   \<and> fst (tab1 env inp db c w) =
     (if search_button inp then
        (case respond env (issued w)
           (Execute db (Like_find c [(''search'', Str (search_text inp))] ''my-index'' 3 (JObj [])))
         of Inl e \<Rightarrow> Inl e
          | Inr rs \<Rightarrow>
              (case find (\<lambda>r. map_of r ''img'' = None \<or> map_of r ''title'' = None) rs of
                 None \<Rightarrow> Inr ()
               | Some r \<Rightarrow>
                   Inl (KeyError (if map_of r ''img'' = None then ''img'' else ''title''))))
      else Inr ())
   \<and> fst (tab2 env inp db c w) =
     (case uploaded_file inp of
        None \<Rightarrow> Inr ()
      | Some file \<Rightarrow>
          (case Image_open env file of
             Inl e \<Rightarrow> Inl e
           | Inr im \<Rightarrow>
               (case respond env (issued w)
                  (Execute db (Like_find c [(''img'', pil_image im)] ''my-index'' 3 (JObj [])))
                of Inl e \<Rightarrow> Inl e
                 | Inr rs \<Rightarrow>
                     (case find (\<lambda>r. map_of r ''img'' = None \<or> map_of r ''title'' = None) rs of
                        None \<Rightarrow> Inr ()
                      | Some r \<Rightarrow>
                          Inl (KeyError (if map_of r ''img'' = None then ''img'' else ''title''))))))
   \<and> fst (tab3 env db c w) =
     (case respond env (issued w) (Execute db (Aggregate c sample_pipeline)) of
        Inl e \<Rightarrow> Inl e
      | Inr [] \<Rightarrow> Inl StopIteration
      | Inr (r0 # rest) \<Rightarrow>
     (case map_of r0 ''img'' of
        None \<Rightarrow> Inl (KeyError ''img'')
      | Some img \<Rightarrow>
     (case map_of r0 ''title'' of
        None \<Rightarrow> Inl (KeyError ''title'')
      | Some title \<Rightarrow>
     (case respond env (issued w @ [Execute db (Aggregate c sample_pipeline)])
        (Execute db (Like_find c [(''img'', pil_image img)] ''my-index'' 3 (JObj []))) of
        Inl e \<Rightarrow> Inl e
      | Inr image_results \<Rightarrow>
     (case find (\<lambda>r. map_of r ''img'' = None) image_results of
        Some r \<Rightarrow> Inl (KeyError ''img'')
      | None \<Rightarrow>
     (case map_of (last (r0 # image_results)) ''title'' of
        None \<Rightarrow> Inl (KeyError ''title'')
      | Some t \<Rightarrow>
     (case respond env
        (issued w @ [Execute db (Aggregate c sample_pipeline),
           Execute db (Like_find c [(''img'', pil_image img)] ''my-index'' 3 (JObj []))])
        (Execute db (Like_find c [(''title'', t)] ''text-index'' 10 (JObj []))) of
        Inl e \<Rightarrow> Inl e
      | Inr text_results \<Rightarrow>
     (case find (\<lambda>r. map_of r ''title'' = None) text_results of
        Some r \<Rightarrow> Inl (KeyError ''title'')
      | None \<Rightarrow> Inr ()))))))))"
proof -
  have searches:
    "text_2_image_search env db c t w =
       (respond env (issued w) (Execute db (Like_find c [(''search'', t)] ''my-index'' 3 (JObj []))),
        w\<lparr>issued := issued w @
           [Execute db (Like_find c [(''search'', t)] ''my-index'' 3 (JObj []))]\<rparr>)"
    "text_2_text_search env db c t w =
       (respond env (issued w) (Execute db (Like_find c [(''title'', t)] ''text-index'' 10 (JObj []))),
        w\<lparr>issued := issued w @
           [Execute db (Like_find c [(''title'', t)] ''text-index'' 10 (JObj []))]\<rparr>)"
    "image_search env db c t w =
       (respond env (issued w)
          (Execute db (Like_find c [(''img'', pil_image t)] ''my-index'' 3 (JObj []))),
        w\<lparr>issued := issued w @
           [Execute db (Like_find c [(''img'', pil_image t)] ''my-index'' 3 (JObj []))]\<rparr>)"
    by (simp_all add: text_2_image_search_def text_2_text_search_def image_search_def
        search_def request_def)
  show ?thesis
    by (intro conjI searches fst_random_product fst_tab0 fst_show_results show_images_eq
        show_titles_eq fst_tab1 fst_tab2 fst_tab3)
qed

theorem documents_are_checked_where_subscripted_witness:
  "fst (tab3 capped_env (superduper_connection capped_env) (Collection ''multimodal'')
      authenticated_world) = Inl (KeyError ''title'')
   \<and> fst (tab3 bare_env (superduper_connection bare_env) (Collection ''multimodal'')
      authenticated_world) = Inr ()
   \<and> fst (tab1 capped_env text_search (superduper_connection capped_env)
      (Collection ''multimodal'') authenticated_world) = Inl (KeyError ''title'')
   \<and> fst (tab2 capped_env upload (superduper_connection capped_env)
      (Collection ''multimodal'') authenticated_world) = Inl (KeyError ''title'')
   \<and> fst (tab0 (demo_env\<lparr>respond := (\<lambda>history q. Inr [sock, cap]),
                         json_dumps := (\<lambda>docs. Inr ''[sock, cap]'')\<rparr>)
        raw_query (Collection ''multimodal'') authenticated_world) =
       Inr (mongo_collection demo_env)
   \<and> fst (show_results [shoe, sock, hat] initial_world) = Inl (KeyError ''img'')
   \<and> show_images [shoe, cap, sock, hat] shoe initial_world =
       (Inl (KeyError ''img''),
        initial_world\<lparr>rendered :=
          [St_image (PIL_Image ''shoe.png'') None, St_image (PIL_Image ''cap.png'') None]\<rparr>)
   \<and> show_titles [sock, [(''title'', Str [])], cap, hat] initial_world =
       (Inl (KeyError ''title''),
        initial_world\<lparr>rendered := [St_text (Str ''Sock''), St_text (Str [])]\<rparr>)"
  using documents_are_checked_where_subscripted
      [where env = capped_env and db = "superduper_connection capped_env"
         and c = "Collection ''multimodal''" and w = authenticated_world and inp = text_search
         and rs = "[shoe, sock, hat]" and ?r0.0 = shoe and t = "Str ''shoe''"]
    documents_are_checked_where_subscripted
      [where env = bare_env and db = "superduper_connection bare_env"
         and c = "Collection ''multimodal''" and w = authenticated_world and inp = no_input
         and rs = "[]" and ?r0.0 = shoe and t = "Str ''shoe''"]
    documents_are_checked_where_subscripted
      [where env = capped_env and db = "superduper_connection capped_env"
         and c = "Collection ''multimodal''" and w = authenticated_world and inp = upload
         and rs = "[]" and ?r0.0 = shoe and t = "Str ''shoe''"]
    documents_are_checked_where_subscripted
      [where env = capped_env and db = "superduper_connection capped_env"
         and c = "Collection ''multimodal''" and w = initial_world and inp = no_input
         and rs = "[shoe, cap, sock, hat]" and ?r0.0 = shoe and t = "Str ''shoe''"]
    documents_are_checked_where_subscripted
      [where env = capped_env and db = "superduper_connection capped_env"
         and c = "Collection ''multimodal''" and w = initial_world and inp = no_input
         and rs = "[sock, [(''title'', Str [])], cap, hat]" and ?r0.0 = shoe
         and t = "Str ''shoe''"]
    documents_are_checked_where_subscripted
      [where env = "demo_env\<lparr>respond := (\<lambda>history q. Inr [sock, cap]),
                             json_dumps := (\<lambda>docs. Inr ''[sock, cap]'')\<rparr>"
         and db = "superduper_connection demo_env"
         and c = "Collection ''multimodal''" and w = authenticated_world and inp = raw_query
         and rs = "[]" and ?r0.0 = shoe and t = "Str ''shoe''"]
  by (simp add: run_defs demo_defs capped_env_def text_search_def upload_def cap_def)

text \<open>
  C4. The code at the input of the claim: a session logs in as \<open>admin\<close>; sampling
  returns the shoe, whose title is \<open>Shoe\<close>, and the image search on the shoe's image
  returns the shoe and then the hat. The requests of the run are the sampling, the
  image search with the sampled image (\<open>my-index\<close>, \<open>n = 3\<close>), and a title search
  on \<open>text-index\<close> with \<open>n = 10\<close> whose text is \<open>Hat\<close>, the title of the last
  image result: the loop over the image results assigns the variable \<open>r\<close> that the
  title search reads.
\<close>

theorem browse_title_search_reads_loop_variable:
  "respond demo_env []
      (Execute (superduper_connection demo_env)
         (Aggregate (Collection ''multimodal'') sample_pipeline)) = Inr [shoe]
   \<and> map_of shoe ''title'' = Some (Str ''Shoe'')
   \<and> map_of shoe ''img'' = Some (PIL_Image ''shoe.png'')
   \<and> issued (runs demo_env [admin_login] initial_world) =
       [Execute (superduper_connection demo_env)
          (Aggregate (Collection ''multimodal'') sample_pipeline),
        Execute (superduper_connection demo_env)
          (Like_find (Collection ''multimodal'') [(''img'', pil_image (PIL_Image ''shoe.png''))]
             ''my-index'' 3 (JObj [])),
        Execute (superduper_connection demo_env)
          (Like_find (Collection ''multimodal'') [(''title'', Str ''Hat'')]
             ''text-index'' 10 (JObj []))]"
  by (simp add: run_defs demo_defs login_admin_password)

end
